theory Spec2Isabelle
  imports Complex_Main
begin

section \<open>Python strings\<close>

text \<open>
  A Python \<open>str\<close> is modelled as a \<open>string\<close> (a list of characters); the functions
  below are the string operations \<open>utils/youtube_downloader_new.py\<close> uses, on ASCII text.
\<close>

text \<open>\<open>s.startswith(p)\<close>\<close>

fun startswith :: "string \<Rightarrow> string \<Rightarrow> bool" where
  "startswith s [] = True"
| "startswith [] (p # ps) = False"
| "startswith (c # cs) (p # ps) = (c = p \<and> startswith cs ps)"

text \<open>\<open>sub in s\<close>\<close>

fun contains :: "string \<Rightarrow> string \<Rightarrow> bool" where
  "contains [] sub = (sub = [])"
| "contains (c # cs) sub = (startswith (c # cs) sub \<or> contains cs sub)"

text \<open>
  \<open>s.split(sep)\<close> for a non-empty separator: the pieces between the occurrences of
  \<open>sep\<close>, found from the left without overlap. \<open>split_acc\<close> carries the piece being read,
  reversed.
\<close>

fun split_acc :: "string \<Rightarrow> string \<Rightarrow> string \<Rightarrow> string list" where
  "split_acc sep acc [] = [rev acc]"
| "split_acc sep acc (c # cs) =
     (if sep \<noteq> [] \<and> startswith (c # cs) sep
      then rev acc # split_acc sep [] (drop (length sep) (c # cs))
      else split_acc sep (c # acc) cs)"

definition split :: "string \<Rightarrow> string \<Rightarrow> string list" where
  "split s sep = split_acc sep [] s"

text \<open>The whitespace \<open>str.strip()\<close> removes: tab to carriage return, the four separators
  \<open>0x1c\<close> to \<open>0x1f\<close>, and the space.\<close>

definition is_space :: "char \<Rightarrow> bool" where
  "is_space c = (let n = (of_char c :: nat) in (9 \<le> n \<and> n \<le> 13) \<or> (28 \<le> n \<and> n \<le> 32))"

definition strip :: "string \<Rightarrow> string" where
  "strip s = rev (dropWhile is_space (rev (dropWhile is_space s)))"

text \<open>\<open>s.lower()\<close>\<close>

definition lower_char :: "char \<Rightarrow> char" where
  "lower_char c =
     (case map_of (zip ''ABCDEFGHIJKLMNOPQRSTUVWXYZ'' ''abcdefghijklmnopqrstuvwxyz'') c of
        Some l \<Rightarrow> l
      | None \<Rightarrow> c)"

definition lower :: "string \<Rightarrow> string" where
  "lower s = map lower_char s"

text \<open>\<open>os.path.basename(p)\<close> on a POSIX system: what follows the last slash.\<close>

definition basename :: "string \<Rightarrow> string" where
  "basename p = rev (takeWhile (\<lambda>c. c \<noteq> CHR ''/'') (rev p))"

section \<open>Errors and numbers\<close>

text \<open>The exceptions of the source that the model distinguishes, each with its message.\<close>

datatype error = ValueError string | TypeError string | KeyError string | IndexError string | OSError string

text \<open>
  Python's \<open>float\<close> values are modelled by the rationals they denote, without rounding.
  \<open>py_float\<close> is \<open>float(s)\<close> on the strings this file passes to it: the text of a regular
  expression group. A decimal literal (digits, then optionally a point and digits) has its
  value; any other text here starts with a backslash, which \<open>float\<close> rejects with a
  \<open>ValueError\<close>.
\<close>

definition is_digit :: "char \<Rightarrow> bool" where
  "is_digit c = (c \<in> set ''0123456789'')"

definition digit_val :: "char \<Rightarrow> nat" where
  "digit_val c = of_char c - 48"

definition digits_val :: "string \<Rightarrow> nat" where
  "digits_val s = foldl (\<lambda>a c. 10 * a + digit_val c) 0 s"

definition py_float :: "string \<Rightarrow> error + rat" where
  "py_float s =
     (let ip = takeWhile is_digit s; r = dropWhile is_digit s in
      if ip = [] then Inl (ValueError ''could not convert string to float'')
      else if r = [] then Inr (of_nat (digits_val ip))
      else if hd r = CHR ''.'' \<and> tl r \<noteq> [] \<and> list_all is_digit (tl r)
        then Inr (of_nat (digits_val ip) + of_nat (digits_val (tl r)) / 10 ^ length (tl r))
      else Inl (ValueError ''could not convert string to float''))"

section \<open>Size units\<close>

text \<open>\<open>parse_size(value_str, unit)\<close>: a human-readable size in bytes.\<close>

definition parse_size :: "string \<Rightarrow> string \<Rightarrow> error + rat" where
  "parse_size value_str unit =
     (case py_float value_str of
        Inl e \<Rightarrow> Inl e
      | Inr v \<Rightarrow>
          (let unit = lower unit in
           if unit = ''kib'' then Inr (v * 1024)
           else if unit = ''mib'' then Inr (v * 1024 ^ 2)
           else if unit = ''gib'' then Inr (v * 1024 ^ 3)
           else Inr v))"

section \<open>Task records and the registry\<close>

text \<open>
  A task record is the dictionary \<open>download_info\<close>. The three inputs are always present; a
  key that the code reads with \<open>.get\<close> and that may be absent is an \<open>option\<close>. The
  \<open>process\<close> key holds the handle of the running subprocess, modelled by its process id.
\<close>

type_synonym task_id = string

record download_info =
  url :: string
  format_type :: string
  quality :: string
  status :: "string option"
  progress :: "rat option"
  speed :: "string option"
  eta :: "string option"
  start_time :: "rat option"
  error :: "string option"
  output_file :: "string option"
  filename :: "string option"
  mime_type :: "string option"
  expected_extension :: "string option"
  process :: "nat option"
  last_progress_line :: "string option"
  downloaded_bytes :: "rat option"
  total_bytes :: "rat option"
  speed_bytes :: "rat option"
  processing_stage :: "string option"
  processing_start_time :: "rat option"

text \<open>
  The state file \<open>downloads_state.json\<close>: absent, unreadable as JSON, or a snapshot of the
  registry. \<open>json.dump\<close> followed by \<open>json.load\<close> is taken to give back the strings, numbers
  and keys it was given.
\<close>

datatype state_file_content = Missing | Corrupt | Snapshot "task_id \<rightharpoonup> download_info"

text \<open>
  The \<open>YouTubeDownloader\<close> object with the part of its surroundings the operations act on:
  the registry \<open>self.downloads\<close>, the state file and whether it can be written, the runner
  threads that \<open>start_download\<close> has started (by task id), and the process ids that were
  sent a termination request.
\<close>

record downloader =
  downloads :: "task_id \<rightharpoonup> download_info"
  ffmpeg_available :: bool
  state_file :: state_file_content
  writable :: bool
  runners :: "task_id list"
  terminated :: "nat list"

text \<open>\<open>_save_downloads\<close>: every record is copied without its \<open>process\<close> key and the copies
  are written; a failure to write is logged and nothing else happens.\<close>

definition save_downloads :: "downloader \<Rightarrow> downloader" where
  "save_downloads D =
     (if writable D
      then D\<lparr>state_file := Snapshot (\<lambda>i. map_option (\<lambda>d. d\<lparr>process := None\<rparr>) (downloads D i))\<rparr>
      else D)"

text \<open>\<open>_load_downloads\<close>: the registry becomes what the file holds; with no file it stays,
  and a file that cannot be read empties it.\<close>

definition load_downloads :: "downloader \<Rightarrow> downloader" where
  "load_downloads D =
     (case state_file D of
        Missing \<Rightarrow> D
      | Corrupt \<Rightarrow> D\<lparr>downloads := Map.empty\<rparr>
      | Snapshot m \<Rightarrow> D\<lparr>downloads := m\<rparr>)"

text \<open>\<open>__init__\<close>: an empty registry, the probe for ffmpeg, then \<open>_load_downloads\<close>. No
  thread is created here.\<close>

definition init_downloader :: "bool \<Rightarrow> bool \<Rightarrow> state_file_content \<Rightarrow> downloader" where
  "init_downloader ffmpeg w f =
     load_downloads \<lparr>downloads = Map.empty, ffmpeg_available = ffmpeg, state_file = f,
       writable = w, runners = [], terminated = []\<rparr>"

text \<open>\<open>get_download_file\<close>\<close>

definition get_download_file ::
  "downloader \<Rightarrow> task_id \<Rightarrow> string option \<times> string option \<times> string option" where
  "get_download_file D download_id =
     (case downloads D download_id of
        None \<Rightarrow> (None, None, None)
      | Some d \<Rightarrow>
          if status d \<noteq> Some ''completed'' then (None, None, None)
          else (output_file d, filename d, mime_type d))"

text \<open>\<open>cancel_download\<close>. \<open>cancel_record\<close> is what it does to the record of a task that
  exists.\<close>

definition is_terminal :: "string option \<Rightarrow> bool" where
  "is_terminal st = (st = Some ''completed'' \<or> st = Some ''failed'' \<or> st = Some ''canceled'')"

definition cancel_record :: "download_info \<Rightarrow> download_info" where
  "cancel_record d = (if is_terminal (status d) then d else d\<lparr>status := Some ''canceled''\<rparr>)"

definition cancel_download :: "downloader \<Rightarrow> task_id \<Rightarrow> bool \<times> downloader" where
  "cancel_download D download_id =
     (case downloads D download_id of
        None \<Rightarrow> (False, D)
      | Some d \<Rightarrow>
          if is_terminal (status d) then (True, D)
          else
            (let D1 = D\<lparr>downloads := (downloads D)(download_id \<mapsto> cancel_record d)\<rparr>;
                 D2 = (case process d of
                         None \<Rightarrow> D1
                       | Some pid \<Rightarrow> D1\<lparr>terminated := pid # terminated D1\<rparr>)
             in (True, save_downloads D2)))"

text \<open>The record \<open>start_download\<close> creates, for a clock reading \<open>now\<close>.\<close>

definition new_download :: "string \<Rightarrow> string \<Rightarrow> string \<Rightarrow> rat \<Rightarrow> download_info" where
  "new_download u ft q now =
     \<lparr>url = u, format_type = ft, quality = q, status = Some ''starting'', progress = Some 0,
      speed = Some ''Calculating...'', eta = Some ''Calculating...'', start_time = Some now,
      error = None, output_file = None, filename = None, mime_type = None,
      expected_extension = None, process = None, last_progress_line = None,
      downloaded_bytes = None, total_bytes = None, speed_bytes = None,
      processing_stage = None, processing_start_time = None\<rparr>"

text \<open>A task that is being downloaded by a live subprocess, and a registry that holds it
  under the id \<open>t1\<close>; they serve as concrete inputs.\<close>

definition running_task :: download_info where
  "running_task =
     (new_download ''https://youtu.be/ABCDEFGHIJK'' ''video'' ''best'' 1000)
       \<lparr>status := Some ''downloading'', process := Some 4242\<rparr>"

definition running_downloader :: downloader where
  "running_downloader =
     \<lparr>downloads = [''t1'' \<mapsto> running_task], ffmpeg_available = True, state_file = Missing,
      writable = True, runners = [''t1''], terminated = []\<rparr>"

section \<open>Regular expressions\<close>

text \<open>
  The patterns of the source are terms of \<open>rx\<close>. \<open>rx_match r s\<close> lists the ways \<open>r\<close> matches
  a prefix of \<open>s\<close>, in the order the backtracking matcher of \<open>re\<close> tries them (a repetition
  takes as much as it can first, an optional part is tried before its absence); each way
  gives the text of the groups, in the order of their opening brackets, and the rest of
  \<open>s\<close>. \<open>re_search\<close> is \<open>re.search\<close>: the first way at the leftmost position that has one.
  \<open>Digit\<close> is \<open>\d\<close> on ASCII text, \<open>AnyChar\<close> is the dot.
\<close>

datatype atom = Ch char | Digit | AnyChar | OneOf string

fun atom_ok :: "atom \<Rightarrow> char \<Rightarrow> bool" where
  "atom_ok (Ch x) c = (c = x)"
| "atom_ok Digit c = is_digit c"
| "atom_ok AnyChar c = (c \<noteq> CHR 0x0A)"
| "atom_ok (OneOf cs) c = (c \<in> set cs)"

datatype rx = Atom atom | Str string | Plus atom | Seq rx rx | Opt rx | Grp rx

fun rx_match :: "rx \<Rightarrow> string \<Rightarrow> (string list \<times> string) list" where
  "rx_match (Atom a) s =
     (case s of [] \<Rightarrow> [] | c # cs \<Rightarrow> if atom_ok a c then [([], cs)] else [])"
| "rx_match (Str l) s = (if startswith s l then [([], drop (length l) s)] else [])"
| "rx_match (Plus a) s =
     map (\<lambda>k. ([], drop k s)) (rev [1 ..< Suc (length (takeWhile (atom_ok a) s))])"
| "rx_match (Seq r1 r2) s =
     concat (map (\<lambda>(g1, t1). map (\<lambda>(g2, t2). (g1 @ g2, t2)) (rx_match r2 t1)) (rx_match r1 s))"
| "rx_match (Opt r) s = rx_match r s @ [([], s)]"
| "rx_match (Grp r) s = map (\<lambda>(g, t). (take (length s - length t) s # g, t)) (rx_match r s)"

fun re_search :: "rx \<Rightarrow> string \<Rightarrow> string list option" where
  "re_search r [] = (case rx_match r [] of [] \<Rightarrow> None | (g, t) # _ \<Rightarrow> Some g)"
| "re_search r (c # cs) =
     (case rx_match r (c # cs) of [] \<Rightarrow> re_search r cs | (g, t) # _ \<Rightarrow> Some g)"

text \<open>
  The pattern of lines 916 and 1136, \<^verbatim>\<open>r'(\d+(?:\.\d+)?)%'\<close>: a decimal number before a
  percent sign.
\<close>

definition pct_re :: rx where
  "pct_re =
     Seq (Grp (Seq (Plus Digit) (Opt (Seq (Atom (Ch CHR ''.'')) (Plus Digit)))))
         (Atom (Ch CHR ''%''))"

text \<open>
  The other patterns of \<open>_download_thread\<close> are raw strings in which every backslash is
  written twice, so that \<^verbatim>\<open>\\d\<close> stands for a backslash followed by the letter d,
  \<^verbatim>\<open>\\s\<close> for a backslash followed by the letter s, and \<^verbatim>\<open>\\.\<close> for a
  backslash followed by any character. \<open>bs_num\<close> is \<^verbatim>\<open>(\\d+(?:\\.\\d+)?)\<close> and
  \<open>unit_re\<close> is \<^verbatim>\<open>([KMG]iB)\<close>.
\<close>

abbreviation backslash :: char where
  "backslash \<equiv> CHR 0x5C"

definition bs_num :: rx where
  "bs_num =
     Grp (Seq (Atom (Ch backslash)) (Seq (Plus (Ch CHR ''d''))
       (Opt (Seq (Atom (Ch backslash)) (Seq (Atom AnyChar)
         (Seq (Atom (Ch backslash)) (Plus (Ch CHR ''d''))))))))"

definition unit_re :: rx where
  "unit_re = Grp (Seq (Atom (OneOf ''KMG'')) (Str ''iB''))"

text \<open>Line 840, \<^verbatim>\<open>r'ETA\\s+((?:\\d{2}:)?\\d{2}:\\d{2})'\<close>\<close>

definition eta_re :: rx where
  "eta_re =
     Seq (Str ''ETA'') (Seq (Atom (Ch backslash)) (Seq (Plus (Ch CHR ''s''))
       (Grp (Seq (Opt (Seq (Atom (Ch backslash)) (Str ''dd:'')))
         (Seq (Atom (Ch backslash)) (Seq (Str ''dd:'') (Seq (Atom (Ch backslash)) (Str ''dd''))))))))"

text \<open>Line 851, \<^verbatim>\<open>r'(\\d+(?:\\.\\d+)?)([KMG]iB) of (\\d+(?:\\.\\d+)?)([KMG]iB)'\<close>\<close>

definition sizes_re :: rx where
  "sizes_re = Seq bs_num (Seq unit_re (Seq (Str '' of '') (Seq bs_num unit_re)))"

text \<open>Lines 862 and 867, \<^verbatim>\<open>r'(\\d+(?:\\.\\d+)?)%'\<close>\<close>

definition bs_pct_re :: rx where
  "bs_pct_re = Seq bs_num (Atom (Ch CHR ''%''))"

text \<open>Line 872, \<^verbatim>\<open>r'at\\s+(\\d+(?:\\.\\d+)?)([KMG]iB)/s'\<close>\<close>

definition speed_re :: rx where
  "speed_re =
     Seq (Str ''at'') (Seq (Atom (Ch backslash)) (Seq (Plus (Ch CHR ''s''))
       (Seq bs_num (Seq unit_re (Str ''/s'')))))"

section \<open>Numbers as text\<close>

text \<open>\<open>int(x)\<close> cuts a number towards zero; \<open>str_nat\<close> writes a natural number in decimal and
  \<open>pad2\<close> is the format \<^verbatim>\<open>:02d\<close>.\<close>

definition py_int :: "rat \<Rightarrow> int" where
  "py_int x = (if 0 \<le> x then \<lfloor>x\<rfloor> else \<lceil>x\<rceil>)"

fun str_nat :: "nat \<Rightarrow> string" where
  "str_nat n =
     (if n < 10 then [''0123456789'' ! n]
      else str_nat (n div 10) @ [''0123456789'' ! (n mod 10)])"

definition pad2 :: "nat \<Rightarrow> string" where
  "pad2 n = (if n < 10 then CHR ''0'' # str_nat n else str_nat n)"

section \<open>One line of subprocess output\<close>

text \<open>
  The body of the loop over the output of the subprocess (lines 797 to 943), as a function
  from the record before the line to the record after it. A function that can raise
  returns \<open>Inl\<close> with the exception and the record as it stands when the exception leaves.
\<close>

text \<open>Lines 797 to 808: a line of the merger or of the converter, read at time \<open>now\<close>.\<close>

definition enter_processing :: "rat \<Rightarrow> string \<Rightarrow> download_info \<Rightarrow> download_info" where
  "enter_processing now line d =
     (let d = d\<lparr>status := Some ''processing''\<rparr>;
          d = (if (case progress d of None \<Rightarrow> 0 | Some p \<Rightarrow> p) > 90
               then d\<lparr>progress := Some 90\<rparr> else d);
          d = d\<lparr>eta := Some ''Processing...'', processing_stage := Some (strip line)\<rparr>
      in if processing_start_time d = None then d\<lparr>processing_start_time := Some now\<rparr> else d)"

text \<open>Lines 825 to 830: the text after the last \<open>ETA\<close>.\<close>

definition direct_eta :: "string \<Rightarrow> string option \<Rightarrow> string option" where
  "direct_eta line current_line_eta =
     (if contains line ''ETA'' then
        (let eta_part = strip (last (split line ''ETA'')) in
         if eta_part \<noteq> [] \<and> eta_part \<noteq> ''Unknown ETA'' \<and> \<not> startswith eta_part ''Unknown''
         then Some eta_part else current_line_eta)
      else current_line_eta)"

text \<open>Lines 833 to 837: the text between the last \<open>at\<close> and the following \<open>ETA\<close>.\<close>

definition direct_speed :: "string \<Rightarrow> string \<Rightarrow> string" where
  "direct_speed line current_line_speed_str =
     (if contains line ''at'' \<and> contains line ''/s'' then
        (let speed_part = strip (hd (split (last (split line ''at'')) ''ETA'')) in
         if speed_part \<noteq> [] \<and> contains speed_part ''/s''
         then speed_part else current_line_speed_str)
      else current_line_speed_str)"

text \<open>Lines 840 to 844.\<close>

definition regex_eta :: "string \<Rightarrow> string option \<Rightarrow> string option" where
  "regex_eta line current_line_eta =
     (case re_search eta_re line of
        Some g \<Rightarrow> Some (g ! 0)
      | None \<Rightarrow> if contains line ''ETA Unknown ETA'' then Some ''Unknown'' else current_line_eta)"

text \<open>Lines 862 to 864 and 867 to 869: the percentage as a fallback.\<close>

definition fallback_pct :: "string \<Rightarrow> download_info \<Rightarrow> (error \<times> download_info) + download_info" where
  "fallback_pct line d =
     (case re_search bs_pct_re line of
        None \<Rightarrow> Inr d
      | Some g \<Rightarrow>
          (case py_float (g ! 0) of
             Inl e \<Rightarrow> Inl (e, d)
           | Inr p \<Rightarrow> Inr (d\<lparr>progress := Some p\<rparr>)))"

text \<open>Lines 848 to 869. The local variables \<open>downloaded_bytes\<close> and \<open>total_bytes\<close> hold
  afterwards what the record holds under these keys.\<close>

definition parse_sizes :: "string \<Rightarrow> download_info \<Rightarrow> (error \<times> download_info) + download_info" where
  "parse_sizes line d =
     (case re_search sizes_re line of
        None \<Rightarrow> fallback_pct line d
      | Some g \<Rightarrow>
          (case parse_size (g ! 0) (g ! 1) of
             Inl e \<Rightarrow> Inl (e, d)
           | Inr db \<Rightarrow>
               (case parse_size (g ! 2) (g ! 3) of
                  Inl e \<Rightarrow> Inl (e, d)
                | Inr tb \<Rightarrow>
                    (let d = d\<lparr>downloaded_bytes := Some db, total_bytes := Some tb\<rparr> in
                     if tb > 0 then Inr (d\<lparr>progress := Some (db / tb * 100)\<rparr>)
                     else if (case progress d of None \<Rightarrow> 0 | Some p \<Rightarrow> p) < 100
                       then fallback_pct line d
                     else Inr d))))"

text \<open>Lines 872 to 876: the speed in bytes and as text.\<close>

definition parse_speed ::
  "string \<Rightarrow> rat option \<Rightarrow> string \<Rightarrow> error + rat option \<times> string" where
  "parse_speed line current_line_speed_bytes current_line_speed_str =
     (case re_search speed_re line of
        None \<Rightarrow> Inr (current_line_speed_bytes, current_line_speed_str)
      | Some g \<Rightarrow>
          (case parse_size (g ! 0) (g ! 1) of
             Inl e \<Rightarrow> Inl e
           | Inr sb \<Rightarrow> Inr (Some sb, g ! 0 @ g ! 1 @ ''/s'')))"

text \<open>Lines 882 to 899: with no time remaining read from the line, it is computed from
  the bytes left and the speed, or kept.\<close>

definition format_eta :: "int \<Rightarrow> string" where
  "format_eta eta_seconds =
     (let h = eta_seconds div 3600; rem = eta_seconds mod 3600;
          m = rem div 60; s_rem = rem mod 60
      in if h > 0 then str_nat (nat h) @ '':'' @ pad2 (nat m) @ '':'' @ pad2 (nat s_rem)
         else pad2 (nat m) @ '':'' @ pad2 (nat s_rem))"

definition computed_eta :: "rat option \<Rightarrow> download_info \<Rightarrow> string" where
  "computed_eta current_line_speed_bytes d =
     (case (current_line_speed_bytes, downloaded_bytes d, total_bytes d) of
        (Some sb, Some db, Some tb) \<Rightarrow>
          if sb > 0 \<and> db < tb then format_eta (py_int ((tb - db) / sb))
          else (case eta d of None \<Rightarrow> ''Calculating...'' | Some e \<Rightarrow> e)
      | _ \<Rightarrow> (case eta d of None \<Rightarrow> ''Calculating...'' | Some e \<Rightarrow> e))"

text \<open>Lines 909 to 926, under the lock. Dividing by the total raises a \<open>TypeError\<close> when
  the bytes downloaded are absent.\<close>

definition commit_line ::
  "string \<Rightarrow> string \<Rightarrow> string \<Rightarrow> rat option \<Rightarrow> download_info
     \<Rightarrow> (error \<times> download_info) + download_info" where
  "commit_line line current_line_eta current_line_speed_str current_line_speed_bytes d =
     (let r = (case total_bytes d of
                 None \<Rightarrow> Inr d
               | Some tb \<Rightarrow>
                   if tb > 0 then
                     (case downloaded_bytes d of
                        None \<Rightarrow> Inl (TypeError ''unsupported operand type(s) for /'', d)
                      | Some db \<Rightarrow> Inr (d\<lparr>progress := Some (db / tb * 100)\<rparr>))
                   else Inr d);
          r = (case r of
                 Inl x \<Rightarrow> Inl x
               | Inr d \<Rightarrow>
                   (case re_search pct_re line of
                      None \<Rightarrow> Inr d
                    | Some g \<Rightarrow>
                        (case py_float (g ! 0) of
                           Inl e \<Rightarrow> Inl (e, d)
                         | Inr p \<Rightarrow> Inr (d\<lparr>progress := Some p\<rparr>))))
      in case r of
           Inl x \<Rightarrow> Inl x
         | Inr d \<Rightarrow>
             (let d = d\<lparr>eta := Some current_line_eta\<rparr>;
                  d = (if current_line_speed_str \<noteq> ''N/A''
                       then d\<lparr>speed := Some current_line_speed_str\<rparr> else d);
                  d = (case current_line_speed_bytes of
                         None \<Rightarrow> d
                       | Some sb \<Rightarrow> d\<lparr>speed_bytes := Some sb\<rparr>)
              in Inr d))"

text \<open>Lines 815 to 926: the \<open>try\<close> block for a progress line.\<close>

definition parse_progress :: "string \<Rightarrow> download_info \<Rightarrow> (error \<times> download_info) + download_info" where
  "parse_progress line d =
     (let current_line_eta = None;
          current_line_speed_str = (case speed d of None \<Rightarrow> ''N/A'' | Some s \<Rightarrow> s);
          current_line_speed_bytes = speed_bytes d;
          current_line_eta = direct_eta line current_line_eta;
          current_line_speed_str = direct_speed line current_line_speed_str;
          current_line_eta = regex_eta line current_line_eta
      in case parse_sizes line d of
           Inl x \<Rightarrow> Inl x
         | Inr d \<Rightarrow>
             (case parse_speed line current_line_speed_bytes current_line_speed_str of
                Inl e \<Rightarrow> Inl (e, d)
              | Inr (current_line_speed_bytes, current_line_speed_str) \<Rightarrow>
                  (let current_line_eta =
                         (case current_line_eta of
                            None \<Rightarrow> computed_eta current_line_speed_bytes d
                          | Some e \<Rightarrow> e);
                       d = d\<lparr>eta := Some current_line_eta\<rparr>
                   in commit_line line current_line_eta current_line_speed_str
                        current_line_speed_bytes d)))"

text \<open>Lines 928 to 933: the handler of the \<open>try\<close> block.\<close>

definition keep_on_error :: "download_info \<Rightarrow> download_info" where
  "keep_on_error d =
     d\<lparr>progress := Some (case progress d of None \<Rightarrow> 0 | Some p \<Rightarrow> p),
       speed := Some (case speed d of None \<Rightarrow> ''N/A'' | Some s \<Rightarrow> s),
       eta := Some (case eta d of None \<Rightarrow> ''N/A'' | Some e \<Rightarrow> e)\<rparr>"

text \<open>Lines 935 to 943: a line that names the destination.\<close>

definition parse_destination :: "string \<Rightarrow> download_info \<Rightarrow> download_info" where
  "parse_destination line d =
     (case split line ''Destination:'' of
        _ # rest # _ \<Rightarrow>
          (let destination = strip rest
           in d\<lparr>output_file := Some destination, filename := Some (basename destination)\<rparr>)
      | _ \<Rightarrow> d)"

text \<open>Lines 797 to 943: the body of the loop after the test for cancellation.\<close>

definition process_line :: "rat \<Rightarrow> string \<Rightarrow> download_info \<Rightarrow> download_info" where
  "process_line now line d =
     (let d = (if contains line ''[Merger]'' \<or> contains line ''[VideoConvertor]''
               then enter_processing now line d else d)
      in if contains line ''[download]'' \<and> contains line ''%'' then
           (case parse_progress line (d\<lparr>last_progress_line := Some (strip line)\<rparr>) of
              Inr d \<Rightarrow> d
            | Inl (e, d) \<Rightarrow> keep_on_error d)
         else if contains line ''Destination:'' then parse_destination line d
         else d)"

section \<open>Reporting progress\<close>

text \<open>The dictionary \<open>get_progress\<close> returns.\<close>

record progress_result =
  r_status :: string
  r_progress :: rat
  r_speed :: string
  r_eta :: string
  r_format_type :: string
  r_elapsed :: int

text \<open>Lines 1132 to 1163: the last progress line is read again. An exception of \<open>float\<close>
  would leave the values as they are at that point.\<close>

definition reparse_raw_line ::
  "string \<Rightarrow> string \<Rightarrow> rat \<times> string \<times> string \<Rightarrow> rat \<times> string \<times> string" where
  "reparse_raw_line st raw_line v =
     (case v of (pr, sp, et) \<Rightarrow>
        (case (case re_search pct_re raw_line of
                 None \<Rightarrow> Inr pr
               | Some g \<Rightarrow>
                   (case py_float (g ! 0) of
                      Inl e \<Rightarrow> Inl e
                    | Inr parsed_pct \<Rightarrow>
                        if st \<noteq> ''processing'' \<and> parsed_pct > 90 then Inr 90
                        else Inr (min 90 parsed_pct))) of
           Inl e \<Rightarrow> (pr, sp, et)
         | Inr pr \<Rightarrow>
             (let et = (if contains raw_line ''ETA'' then
                          (let eta_part = strip (last (split raw_line ''ETA'')) in
                           if eta_part \<noteq> [] \<and> \<not> startswith eta_part ''Unknown''
                           then eta_part else et)
                        else et);
                  sp = (if contains raw_line ''at'' \<and> contains raw_line ''/s'' then
                          (let speed_part = strip (hd (split (last (split raw_line ''at'')) ''ETA'')) in
                           if contains speed_part ''/s'' then speed_part else sp)
                        else sp)
              in (pr, sp, et))))"

text \<open>Line 1174: when the processing phase began, for a clock reading \<open>now\<close>.\<close>

definition processing_start :: "rat \<Rightarrow> download_info \<Rightarrow> rat" where
  "processing_start now d =
     (case processing_start_time d of
        Some t \<Rightarrow> t
      | None \<Rightarrow> (case start_time d of Some t \<Rightarrow> t | None \<Rightarrow> now))"

text \<open>Lines 1123 to 1219: what \<open>get_progress\<close> computes from its copy of the record when
  the clock reads \<open>now\<close>.\<close>

definition report_progress :: "rat \<Rightarrow> download_info \<Rightarrow> progress_result" where
  "report_progress now d =
     (let st = (case status d of None \<Rightarrow> ''unknown'' | Some s \<Rightarrow> s);
          pr = (case progress d of None \<Rightarrow> 0 | Some p \<Rightarrow> p);
          sp = (case speed d of None \<Rightarrow> ''Calculating...'' | Some s \<Rightarrow> s);
          et = (case eta d of None \<Rightarrow> ''Calculating...'' | Some e \<Rightarrow> e);
          elapsed = py_int (now - (case start_time d of None \<Rightarrow> now | Some t \<Rightarrow> t));
          raw_line = (case last_progress_line d of None \<Rightarrow> [] | Some l \<Rightarrow> l);
          v = (if raw_line \<noteq> [] \<and> contains raw_line ''[download]'' \<and> contains raw_line ''%''
               then reparse_raw_line st raw_line (pr, sp, et) else (pr, sp, et));
          v = (case v of (pr, sp, et) \<Rightarrow>
                 if st = ''downloading'' \<and> pr < 1 / 10 then (1 / 10, sp, et) else (pr, sp, et));
          v = (case v of (pr, sp, et) \<Rightarrow>
                 if st = ''processing'' then
                   (let processing_elapsed = now - processing_start now d;
                        processing_progress = min 9 (processing_elapsed / 10 * 9);
                        processing_stage = (case processing_stage d of None \<Rightarrow> [] | Some s \<Rightarrow> s)
                    in (90 + processing_progress, ''Processing...'',
                        if contains processing_stage ''Merger'' then ''Merging streams...''
                        else if contains processing_stage ''VideoConvertor''
                          then ''Preparing for download in your device...''
                        else ''Processing...''))
                 else (pr, sp, et))
      in case v of (pr, sp, et) \<Rightarrow>
           \<lparr>r_status = st, r_progress = pr, r_speed = sp, r_eta = et,
            r_format_type = format_type d, r_elapsed = elapsed\<rparr>)"

text \<open>\<open>get_progress\<close>\<close>

definition get_progress :: "rat \<Rightarrow> downloader \<Rightarrow> task_id \<Rightarrow> error + progress_result" where
  "get_progress now D download_id =
     (case downloads D download_id of
        None \<Rightarrow> Inl (ValueError ''Download ID not found'')
      | Some d \<Rightarrow> Inr (report_progress now d))"

section \<open>The runner thread\<close>

text \<open>
  What happens around one run of \<open>_download_thread\<close>. The subprocess is known by the lines
  it prints, each with the time at which the runner reads it, and by its return code; a
  call of \<open>cancel_download\<close> from another thread may fall between two lines. The files are
  known by which paths exist and by the listing of the task's directory.
\<close>

datatype event = Output rat string | CancelRequest

record filesystem =
  path_exists :: "string \<Rightarrow> bool"
  listing :: "string list"

text \<open>The loop of lines 791 to 943. Each state of the record goes into the result; the
  loop ends when a line is read after the task was cancelled.\<close>

fun read_loop :: "event list \<Rightarrow> download_info \<Rightarrow> download_info list" where
  "read_loop [] d = []"
| "read_loop (CancelRequest # es) d = cancel_record d # read_loop es (cancel_record d)"
| "read_loop (Output now line # es) d =
     (if status d = Some ''canceled'' then []
      else process_line now line d # read_loop es (process_line now line d))"

text \<open>\<open>os.path.splitext(p)[0]\<close>, \<open>Path(p).suffix\<close> and \<open>os.path.join(a, b)\<close> on a POSIX
  system.\<close>

definition splitext_root :: "string \<Rightarrow> string" where
  "splitext_root p =
     (let name = basename p;
          ext = rev (takeWhile (\<lambda>c. c \<noteq> CHR ''.'') (rev name));
          stem = take (length name - length ext - 1) name
      in if CHR ''.'' \<in> set name \<and> list_ex (\<lambda>c. c \<noteq> CHR ''.'') stem
         then take (length p - length ext - 1) p else p)"

definition suffix :: "string \<Rightarrow> string" where
  "suffix p =
     (let name = basename p;
          ext = rev (takeWhile (\<lambda>c. c \<noteq> CHR ''.'') (rev name))
      in if CHR ''.'' \<in> set name \<and> length ext + 1 < length name \<and> ext \<noteq> []
         then CHR ''.'' # ext else [])"

definition path_join :: "string \<Rightarrow> string \<Rightarrow> string" where
  "path_join a b =
     (if startswith b ''/'' then b
      else if a = [] \<or> last a = CHR ''/'' then a @ b
      else a @ ''/'' @ b)"

text \<open>\<open>str(n)\<close> for an integer.\<close>

definition str_int :: "int \<Rightarrow> string" where
  "str_int n = (if n < 0 then CHR ''-'' # str_nat (nat (- n)) else str_nat (nat n))"

text \<open>Lines 981 to 990: the recorded path is tried with other extensions.\<close>

fun try_extensions ::
  "filesystem \<Rightarrow> string \<Rightarrow> string list \<Rightarrow> download_info \<Rightarrow> download_info \<times> bool" where
  "try_extensions fs p [] d = (d, False)"
| "try_extensions fs p (ext # exts) d =
     (let test_path = splitext_root p @ ext in
      if path_exists fs test_path
      then (d\<lparr>output_file := Some test_path, filename := Some (basename test_path)\<rparr>, True)
      else try_extensions fs p exts d)"

text \<open>
  Lines 946 to 1067, after \<open>process.wait()\<close> has given the return code, for a video or an
  audio task (a thumbnail task has returned before, so the branches for thumbnails in
  these lines are never taken). The result lists the states of the record after the
  writes of its status.
\<close>

definition after_wait :: "filesystem \<Rightarrow> int \<Rightarrow> download_info \<Rightarrow> download_info list" where
  "after_wait fs return_code d =
     (if return_code = 0 \<and> status d \<noteq> Some ''canceled'' then
        (let d1 = d\<lparr>status := Some ''processing'', progress := Some 99,
                     eta := Some ''Processing...'', speed := Some ''N/A''\<rparr>;
             d2 = (if output_file d1 = None then
                     (case listing fs of
                        [] \<Rightarrow> d1
                      | f # _ \<Rightarrow> d1\<lparr>output_file := Some f, filename := Some (basename f)\<rparr>)
                   else d1);
             r = (case output_file d2 of
                    None \<Rightarrow> (d2, False)
                  | Some p \<Rightarrow>
                      if path_exists fs p then (d2, True)
                      else try_extensions fs p [''.mp4'', ''.webm'', ''.mkv''] d2);
             r = (if \<not> snd r then
                    (case filter (\<lambda>f. lower (suffix f) \<in> set [''.mp4'', ''.webm'', ''.mkv''])
                            (filter (\<lambda>f. CHR ''.'' \<in> set (basename f)) (listing fs)) of
                       [] \<Rightarrow> r
                     | f # _ \<Rightarrow>
                         ((fst r)\<lparr>output_file := Some f, filename := Some (basename f)\<rparr>, True))
                  else r);
             done = (\<lambda>d. d\<lparr>status := Some ''completed'', progress := Some 100,
                          eta := Some ''Done'', speed := Some ''Complete''\<rparr>)
         in if \<not> snd r then
              (let d3 = (fst r)\<lparr>status := Some ''failed'',
                          error := Some ''Download completed but file not found''\<rparr>
               in [d1, d3, done d3])
            else [d1, done (fst r)])
      else
        [d\<lparr>status := Some ''failed'',
           error := Some (''Download process exited with code '' @ str_int return_code)\<rparr>])"

text \<open>\<open>str(e)\<close> for an exception, and the handler of lines 1069 to 1074.\<close>

fun error_str :: "error \<Rightarrow> string" where
  "error_str (ValueError m) = m"
| "error_str (TypeError m) = m"
| "error_str (KeyError k) = CHR 0x27 # k @ [CHR 0x27]"
| "error_str (IndexError m) = m"
| "error_str (OSError m) = m"

definition fail_with :: "error \<Rightarrow> download_info \<Rightarrow> download_info" where
  "fail_with e d = d\<lparr>status := Some ''failed'', error := Some (error_str e)\<rparr>"

text \<open>
  The dictionary \<open>get_video_info\<close> returns is known to the runner by its keys \<open>title\<close> and
  \<open>thumbnails\<close>, each of which may be absent. The rest of the surroundings of a run: whether
  the task's directory can be made, the answer to the request for the thumbnail, whether
  the image can be written, whether the subprocess starts and with which process id.
\<close>

record video_info =
  title :: "string option"
  thumbnails :: "string list option"

record run_env =
  makedirs_error :: "error option"
  info :: video_info
  http_get :: "error + int"
  write_error :: "error option"
  popen :: "error + nat"
  events :: "event list"
  return_code :: int
  files :: filesystem

text \<open>\<open>c.isalnum()\<close> on ASCII text.\<close>

definition is_alnum :: "char \<Rightarrow> bool" where
  "is_alnum c =
     (c \<in> set ''0123456789abcdefghijklmnopqrstuvwxyzABCDEFGHIJKLMNOPQRSTUVWXYZ'')"

text \<open>Lines 741 to 772: the thumbnail is fetched without a subprocess.\<close>

definition download_thumbnail :: "run_env \<Rightarrow> string \<Rightarrow> download_info \<Rightarrow> error + download_info" where
  "download_thumbnail env output_path d =
     (case thumbnails (info env) of
        None \<Rightarrow> Inl (KeyError ''thumbnails'')
      | Some [] \<Rightarrow> Inl (ValueError ''No thumbnails found for this video'')
      | Some (thumbnail_url # _) \<Rightarrow>
          (case http_get env of
             Inl e \<Rightarrow> Inl e
           | Inr status_code \<Rightarrow>
               if status_code \<noteq> 200
               then Inl (ValueError (''Failed to download thumbnail: HTTP '' @ str_int status_code))
               else
                 (case title (info env) of
                    None \<Rightarrow> Inl (KeyError ''title'')
                  | Some t \<Rightarrow>
                      (let fname = filter (\<lambda>c. is_alnum c \<or> c \<in> set ''._- '') (t @ ''_thumbnail.jpg'');
                           file_path = path_join output_path fname
                       in case write_error env of
                            Some e \<Rightarrow> Inl e
                          | None \<Rightarrow>
                              Inr (d\<lparr>output_file := Some file_path, filename := Some fname,
                                     mime_type := Some ''image/jpeg'',
                                     status := Some ''completed'', progress := Some 100\<rparr>)))))"

text \<open>Lines 778 to 1067: the subprocess is started, its output is read, and its end is
  awaited.\<close>

definition run_subprocess :: "run_env \<Rightarrow> download_info \<Rightarrow> download_info list" where
  "run_subprocess env d =
     (case popen env of
        Inl e \<Rightarrow> [fail_with e d]
      | Inr pid \<Rightarrow>
          (let d1 = d\<lparr>process := Some pid\<rparr>;
               ds = d1 # read_loop (events env) d1
           in ds @ after_wait (files env) (return_code env) (last ds)))"

text \<open>
  \<open>_download_thread\<close>: the states the record of the task goes through, in order. The
  harvest of browser cookies and the command line of the subprocess do not touch the
  record and are left out, as are the snapshots written on the way.
\<close>

definition download_thread ::
  "run_env \<Rightarrow> string \<Rightarrow> downloader \<Rightarrow> task_id \<Rightarrow> string \<Rightarrow> string \<Rightarrow> string \<Rightarrow> download_info list" where
  "download_thread env temp_dir D download_id u ft q =
     (case downloads D download_id of
        None \<Rightarrow> []
      | Some d0 \<Rightarrow>
          (let d = d0\<lparr>status := Some ''downloading''\<rparr>;
               output_path = path_join temp_dir download_id
           in d #
              (case makedirs_error env of
                 Some e \<Rightarrow> [fail_with e d]
               | None \<Rightarrow>
                   if ft = ''video'' then
                     (if \<not> ffmpeg_available D
                      then [d\<lparr>status := Some ''failed'', error := Some ''ffmpeg not found in PATH''\<rparr>]
                      else run_subprocess env
                             (d\<lparr>expected_extension := Some ''mp4'', mime_type := Some ''video/mp4''\<rparr>))
                   else if ft = ''audio'' then
                     (if \<not> ffmpeg_available D
                      then [d\<lparr>status := Some ''failed'', error := Some
                        ''ffmpeg is required for audio conversion; please install ffmpeg and ensure it is in your PATH''\<rparr>]
                      else run_subprocess env
                             (d\<lparr>expected_extension := Some ''mp3'', mime_type := Some ''audio/mpeg''\<rparr>))
                   else if ft = ''thumbnail'' then
                     (case download_thumbnail env output_path d of
                        Inl e \<Rightarrow> [fail_with e d]
                      | Inr d' \<Rightarrow> [d'])
                   else [fail_with (ValueError ''No download command generated'') d])))"

section \<open>Starting a download\<close>

text \<open>
  \<open>urlparse\<close> and \<open>parse_qs\<close> of the standard library are parameters: each returns its
  result or raises.
\<close>

record parsed_url =
  netloc :: string
  path :: string
  query :: string

record url_lib =
  urlparse :: "string \<Rightarrow> error + parsed_url"
  parse_qs :: "string \<Rightarrow> error + (string \<rightharpoonup> string list)"

text \<open>The body of the \<open>try\<close> block of \<open>_is_valid_youtube_url\<close>, lines 368 to 381.\<close>

definition valid_url_body :: "url_lib \<Rightarrow> string \<Rightarrow> error + bool" where
  "valid_url_body lib u =
     (case urlparse lib u of
        Inl e \<Rightarrow> Inl e
      | Inr parsed \<Rightarrow>
          if netloc parsed \<notin> set [''www.youtube.com'', ''youtube.com'', ''youtu.be''] then Inr False
          else if netloc parsed \<in> set [''www.youtube.com'', ''youtube.com''] then
            (case parse_qs lib (query parsed) of
               Inl e \<Rightarrow> Inl e
             | Inr qd \<Rightarrow>
                 (case qd ''v'' of
                    None \<Rightarrow> Inr False
                  | Some [] \<Rightarrow> Inl (IndexError ''list index out of range'')
                  | Some (v # _) \<Rightarrow> Inr (length v = 11)))
          else if netloc parsed = ''youtu.be'' then
            Inr (length (path parsed) > 1 \<and> length (drop 1 (path parsed)) = 11)
          else Inr False)"

text \<open>\<open>_is_valid_youtube_url\<close>: any exception of the body is logged and gives \<open>False\<close>.\<close>

definition is_valid_youtube_url :: "url_lib \<Rightarrow> string \<Rightarrow> bool" where
  "is_valid_youtube_url lib u = (case valid_url_body lib u of Inl e \<Rightarrow> False | Inr b \<Rightarrow> b)"

text \<open>\<open>start_download\<close>, with the identifier \<open>uuid4\<close> draws and the clock reading as
  arguments. The new runner thread is recorded by the id of its task.\<close>

definition start_download ::
  "url_lib \<Rightarrow> task_id \<Rightarrow> rat \<Rightarrow> downloader \<Rightarrow> string \<Rightarrow> string \<Rightarrow> string
     \<Rightarrow> error + task_id \<times> downloader" where
  "start_download lib download_id now D u ft q =
     (if \<not> is_valid_youtube_url lib u then Inl (ValueError ''Invalid YouTube URL'')
      else if ft \<notin> set [''video'', ''audio'', ''thumbnail''] then
        Inl (ValueError (''Invalid format type. Must be 'video', 'audio', or 'thumbnail'' @ [CHR 0x27]))
      else
        (let D1 = save_downloads
                    (D\<lparr>downloads := (downloads D)(download_id \<mapsto> new_download u ft q now)\<rparr>)
         in Inr (download_id, D1\<lparr>runners := download_id # runners D1\<rparr>)))"

section \<open>Concrete inputs\<close>

text \<open>A task as \<open>start_download\<close> leaves it and a registry that holds it under the id
  \<open>t1\<close>.\<close>

definition fresh_downloader :: "string \<Rightarrow> downloader" where
  "fresh_downloader ft =
     \<lparr>downloads = [''t1'' \<mapsto> new_download ''https://youtu.be/ABCDEFGHIJK'' ft ''best'' 1000],
      ffmpeg_available = True, state_file = Missing, writable = True, runners = [''t1''],
      terminated = []\<rparr>"

text \<open>A run in which the subprocess prints one progress line, the task is cancelled, and
  the subprocess, terminated, ends with the return code \<open>-15\<close>.\<close>

definition cancelled_run :: run_env where
  "cancelled_run =
     \<lparr>makedirs_error = None, info = \<lparr>title = None, thumbnails = None\<rparr>,
      http_get = Inr 200, write_error = None, popen = Inr 4242,
      events = [Output 1001 ''[download]  10.0% of  50.62MiB at  499.80KiB/s ETA 01:43'',
                CancelRequest],
      return_code = - 15,
      files = \<lparr>path_exists = (\<lambda>p. False), listing = []\<rparr>\<rparr>"

text \<open>A run for a thumbnail: \<open>get_video_info\<close> of this file returns a dictionary with a title
  and without the key \<open>thumbnails\<close>.\<close>

definition thumbnail_run :: run_env where
  "thumbnail_run =
     \<lparr>makedirs_error = None, info = \<lparr>title = Some ''Clip'', thumbnails = None\<rparr>,
      http_get = Inr 200, write_error = None, popen = Inr 4242, events = [],
      return_code = 0, files = \<lparr>path_exists = (\<lambda>p. False), listing = []\<rparr>\<rparr>"

text \<open>A library for URLs that parses one address and raises on every other text.\<close>

definition one_url_lib :: url_lib where
  "one_url_lib =
     \<lparr>urlparse = (\<lambda>u. if u = ''https://youtu.be/ABCDEFGHIJK''
                       then Inr \<lparr>netloc = ''youtu.be'', path = ''/ABCDEFGHIJK'', query = []\<rparr>
                       else Inl (ValueError ''Invalid IPv6 URL'')),
      parse_qs = (\<lambda>qs. Inr Map.empty)\<rparr>"

text \<open>The progress line of the examples.\<close>

definition example_line :: string where
  "example_line = ''[download]  42.0% of  50.62MiB at  499.80KiB/s ETA 01:43''"

text \<open>A run that succeeds: the subprocess names its destination, reports the download as
  complete and ends with the return code \<open>0\<close>, and the file is there.\<close>

definition finished_run :: run_env where
  "finished_run =
     \<lparr>makedirs_error = None, info = \<lparr>title = None, thumbnails = None\<rparr>,
      http_get = Inr 200, write_error = None, popen = Inr 4242,
      events = [Output 1001 ''[download] Destination: /tmp/t1/clip.mp4'',
                Output 1002 ''[download] 100% of   50.62MiB in 00:00:10 at 5.06MiB/s''],
      return_code = 0,
      files = \<lparr>path_exists = (\<lambda>p. p = ''/tmp/t1/clip.mp4''),
               listing = [''/tmp/t1/clip.mp4'']\<rparr>\<rparr>"


text \<open>A run for a playlist: the subprocess merges the streams of the first video and then
  reports on the download of the second.\<close>

definition playlist_run :: run_env where
  "playlist_run =
     \<lparr>makedirs_error = None, info = \<lparr>title = None, thumbnails = None\<rparr>,
      http_get = Inr 200, write_error = None, popen = Inr 4242,
      events = [Output 1001 ''[Merger] Merging formats into /tmp/t1/first.mp4'',
                Output 1003 ''[download]  42.0% of  50.62MiB at  499.80KiB/s ETA 01:43''],
      return_code = 0,
      files = \<lparr>path_exists = (\<lambda>p. p = ''/tmp/t1/first.mp4''),
               listing = [''/tmp/t1/first.mp4'']\<rparr>\<rparr>"

text \<open>A run in which the subprocess ends with the return code \<open>0\<close> and has left no file.\<close>

definition empty_run :: run_env where
  "empty_run =
     \<lparr>makedirs_error = None, info = \<lparr>title = None, thumbnails = None\<rparr>,
      http_get = Inr 200, write_error = None, popen = Inr 4242,
      events = [Output 1001 ''[download] 100% of   50.62MiB in 00:00:10 at 5.06MiB/s''],
      return_code = 0,
      files = \<lparr>path_exists = (\<lambda>p. False), listing = []\<rparr>\<rparr>"
section \<open>What the runner keeps\<close>

text \<open>
  Facts about every run of \<open>_download_thread\<close>. The loop over the output of the subprocess
  writes the status \<open>processing\<close> and no other, it never touches the MIME type, and it
  stores the bytes downloaded and the total together (lines 856 and 857) or not at all.
\<close>

lemma fallback_pct_fields:
  assumes "fallback_pct l d = Inr d' \<or> fallback_pct l d = Inl (e, d')"
  shows "mime_type d' = mime_type d \<and> total_bytes d' = total_bytes d
       \<and> downloaded_bytes d' = downloaded_bytes d \<and> status d' = status d"
  using assms by (auto simp add: fallback_pct_def split: option.splits sum.splits)

lemma parse_sizes_fields:
  assumes "parse_sizes l d = Inr d' \<or> parse_sizes l d = Inl (e, d')"
  shows "mime_type d' = mime_type d \<and> status d' = status d
       \<and> (total_bytes d = None \<or> downloaded_bytes d \<noteq> None
            \<longrightarrow> total_bytes d' = None \<or> downloaded_bytes d' \<noteq> None)"
  using assms
  by (auto simp add: parse_sizes_def Let_def dest!: fallback_pct_fields [OF disjI1] fallback_pct_fields [OF disjI2]
      split: option.splits sum.splits if_splits)

lemma commit_line_fields:
  assumes "commit_line l a b c d = Inr d' \<or> commit_line l a b c d = Inl (e, d')"
  shows "mime_type d' = mime_type d \<and> total_bytes d' = total_bytes d
       \<and> downloaded_bytes d' = downloaded_bytes d \<and> status d' = status d"
  using assms
  by (auto simp add: commit_line_def Let_def split: option.splits sum.splits if_splits)

lemma parse_progress_fields:
  assumes "parse_progress l d = Inr d' \<or> parse_progress l d = Inl (e, d')"
  shows "mime_type d' = mime_type d \<and> status d' = status d
       \<and> (total_bytes d = None \<or> downloaded_bytes d \<noteq> None
            \<longrightarrow> total_bytes d' = None \<or> downloaded_bytes d' \<noteq> None)"
proof (cases "parse_sizes l d")
  case (Inl x)
  obtain e1 d1 where x: "x = (e1, d1)" by (cases x)
  from Inl x assms have "d' = d1" by (simp add: parse_progress_def)
  with parse_sizes_fields [of l d d1 e1] Inl x show ?thesis by simp
next
  case (Inr d1)
  note s = parse_sizes_fields [of l d d1 e, OF disjI1, OF Inr]
  show ?thesis
  proof (cases "parse_speed l (speed_bytes d) (direct_speed l (case speed d of None \<Rightarrow> ''N/A'' | Some s \<Rightarrow> s))")
    case (Inl e2)
    with Inr assms have "d' = d1" by (simp add: parse_progress_def Let_def)
    with s show ?thesis by simp
  next
    case (Inr r)
    obtain sb ss where r: "r = (sb, ss)" by (cases r)
    define ce where "ce = (case regex_eta l (direct_eta l None) of
                            None \<Rightarrow> computed_eta sb d1 | Some e \<Rightarrow> e)"
    from assms \<open>parse_sizes l d = Inr d1\<close> Inr r
    have "commit_line l ce ss sb (d1\<lparr>eta := Some ce\<rparr>) = Inr d'
        \<or> commit_line l ce ss sb (d1\<lparr>eta := Some ce\<rparr>) = Inl (e, d')"
      by (simp add: parse_progress_def Let_def ce_def)
    from commit_line_fields [OF this] s show ?thesis by simp
  qed
qed

lemma process_line_fields:
  "mime_type (process_line now l d) = mime_type d
   \<and> (status (process_line now l d) = status d
        \<or> status (process_line now l d) = Some ''processing'')
   \<and> (total_bytes d = None \<or> downloaded_bytes d \<noteq> None
        \<longrightarrow> total_bytes (process_line now l d) = None
          \<or> downloaded_bytes (process_line now l d) \<noteq> None)"
proof -
  define d1 where "d1 = (if contains l ''[Merger]'' \<or> contains l ''[VideoConvertor]''
               then enter_processing now l d else d)"
  have a: "mime_type d1 = mime_type d \<and> total_bytes d1 = total_bytes d
      \<and> downloaded_bytes d1 = downloaded_bytes d
      \<and> (status d1 = status d \<or> status d1 = Some ''processing'')"
    by (simp add: d1_def enter_processing_def Let_def)
  define d2 where "d2 = d1\<lparr>last_progress_line := Some (strip l)\<rparr>"
  have b: "mime_type d2 = mime_type d \<and> total_bytes d2 = total_bytes d
      \<and> downloaded_bytes d2 = downloaded_bytes d \<and> status d2 = status d1"
    using a by (simp add: d2_def)
  have c: "mime_type (parse_destination l d1) = mime_type d
      \<and> total_bytes (parse_destination l d1) = total_bytes d
      \<and> downloaded_bytes (parse_destination l d1) = downloaded_bytes d
      \<and> status (parse_destination l d1) = status d1"
    using a by (simp add: parse_destination_def Let_def split: list.splits)
  have p: "process_line now l d =
      (if contains l ''[download]'' \<and> contains l ''%'' then
           (case parse_progress l d2 of
              Inr d \<Rightarrow> d
            | Inl (e, d) \<Rightarrow> keep_on_error d)
         else if contains l ''Destination:'' then parse_destination l d1
         else d1)"
    by (simp add: process_line_def d1_def d2_def Let_def)
  have k: "mime_type (case parse_progress l d2 of Inr d \<Rightarrow> d | Inl (e, d) \<Rightarrow> keep_on_error d)
             = mime_type d
      \<and> status (case parse_progress l d2 of Inr d \<Rightarrow> d | Inl (e, d) \<Rightarrow> keep_on_error d)
             = status d1
      \<and> (total_bytes d = None \<or> downloaded_bytes d \<noteq> None
        \<longrightarrow> total_bytes (case parse_progress l d2 of Inr d \<Rightarrow> d | Inl (e, d) \<Rightarrow> keep_on_error d) = None
          \<or> downloaded_bytes (case parse_progress l d2 of Inr d \<Rightarrow> d | Inl (e, d) \<Rightarrow> keep_on_error d) \<noteq> None)"
  proof (cases "parse_progress l d2")
    case (Inl x)
    obtain e1 d3 where x: "x = (e1, d3)" by (cases x)
    from parse_progress_fields [of l d2 d3 e1] Inl x b show ?thesis
      by (simp add: keep_on_error_def)
  next
    case (Inr d3)
    from parse_progress_fields [of l d2 d3, OF disjI1, OF Inr] Inr b show ?thesis by simp
  qed
  from p k c a show ?thesis by auto
qed

lemma read_loop_fields:
  assumes "d' \<in> set (read_loop es d)"
  shows "mime_type d' = mime_type d
   \<and> (status d \<noteq> Some ''completed'' \<longrightarrow> status d' \<noteq> Some ''completed'')
   \<and> (total_bytes d = None \<or> downloaded_bytes d \<noteq> None
        \<longrightarrow> total_bytes d' = None \<or> downloaded_bytes d' \<noteq> None)"
  using assms
proof (induction es d rule: read_loop.induct)
  case (1 d)
  then show ?case by simp
next
  case (2 es d)
  have c: "mime_type (cancel_record d) = mime_type d
     \<and> total_bytes (cancel_record d) = total_bytes d
     \<and> downloaded_bytes (cancel_record d) = downloaded_bytes d
     \<and> (status d \<noteq> Some ''completed'' \<longrightarrow> status (cancel_record d) \<noteq> Some ''completed'')"
    by (simp add: cancel_record_def)
  from 2 c show ?case by auto
next
  case (3 now line es d)
  from 3 process_line_fields [of now line d] show ?case
    by (auto split: if_splits)
qed

lemma try_extensions_fields:
  "mime_type (fst (try_extensions fs p exts d)) = mime_type d
   \<and> total_bytes (fst (try_extensions fs p exts d)) = total_bytes d
   \<and> downloaded_bytes (fst (try_extensions fs p exts d)) = downloaded_bytes d
   \<and> status (fst (try_extensions fs p exts d)) = status d
   \<and> error (fst (try_extensions fs p exts d)) = error d
   \<and> (snd (try_extensions fs p exts d) \<longrightarrow> output_file (fst (try_extensions fs p exts d)) \<noteq> None)"
  by (induction exts) (simp_all add: Let_def)

text \<open>
  After \<open>process.wait()\<close> the record is marked \<open>completed\<close> with a file on record, or with
  the error \<^verbatim>\<open>Download completed but file not found\<close> that line 1012 has just written.
\<close>

lemma after_wait_fields:
  assumes "d' \<in> set (after_wait fs rc d)"
  shows "mime_type d' = mime_type d \<and> total_bytes d' = total_bytes d
       \<and> downloaded_bytes d' = downloaded_bytes d
       \<and> (status d' = Some ''completed'' \<longrightarrow>
            output_file d' \<noteq> None \<or> error d' = Some ''Download completed but file not found'')"
proof -
  define d1 where "d1 = d\<lparr>status := Some ''processing'', progress := Some 99,
                     eta := Some ''Processing...'', speed := Some ''N/A''\<rparr>"
  define d2 where "d2 = (if output_file d1 = None then
                     (case listing fs of
                        [] \<Rightarrow> d1
                      | f # _ \<Rightarrow> d1\<lparr>output_file := Some f, filename := Some (basename f)\<rparr>)
                   else d1)"
  define r0 where "r0 = (case output_file d2 of
                    None \<Rightarrow> (d2, False)
                  | Some p \<Rightarrow>
                      if path_exists fs p then (d2, True)
                      else try_extensions fs p [''.mp4'', ''.webm'', ''.mkv''] d2)"
  define r where "r = (if \<not> snd r0 then
                    (case filter (\<lambda>f. lower (suffix f) \<in> set [''.mp4'', ''.webm'', ''.mkv''])
                            (filter (\<lambda>f. CHR ''.'' \<in> set (basename f)) (listing fs)) of
                       [] \<Rightarrow> r0
                     | f # _ \<Rightarrow>
                         ((fst r0)\<lparr>output_file := Some f, filename := Some (basename f)\<rparr>, True))
                  else r0)"
  define fin where "fin = (\<lambda>d::download_info. d\<lparr>status := Some ''completed'', progress := Some 100,
                          eta := Some ''Done'', speed := Some ''Complete''\<rparr>)"
  define d3 where "d3 = (fst r)\<lparr>status := Some ''failed'',
                          error := Some ''Download completed but file not found''\<rparr>"
  have aw: "after_wait fs rc d =
     (if rc = 0 \<and> status d \<noteq> Some ''canceled'' then
        (if \<not> snd r then [d1, d3, fin d3] else [d1, fin (fst r)])
      else
        [d\<lparr>status := Some ''failed'',
           error := Some (''Download process exited with code '' @ str_int rc)\<rparr>])"
    by (simp only: after_wait_def Let_def d1_def d2_def r0_def r_def fin_def d3_def)
  have f1: "mime_type d1 = mime_type d \<and> total_bytes d1 = total_bytes d
      \<and> downloaded_bytes d1 = downloaded_bytes d \<and> status d1 = Some ''processing''"
    by (simp add: d1_def)
  have f2: "mime_type d2 = mime_type d \<and> total_bytes d2 = total_bytes d
      \<and> downloaded_bytes d2 = downloaded_bytes d"
    using f1 by (simp add: d2_def split: list.splits)
  have f3: "mime_type (fst r0) = mime_type d \<and> total_bytes (fst r0) = total_bytes d
      \<and> downloaded_bytes (fst r0) = downloaded_bytes d
      \<and> (snd r0 \<longrightarrow> output_file (fst r0) \<noteq> None)"
    using f2 try_extensions_fields [of fs _ "[''.mp4'', ''.webm'', ''.mkv'']" d2]
    by (simp add: r0_def split: option.splits)
  have f4: "mime_type (fst r) = mime_type d \<and> total_bytes (fst r) = total_bytes d
      \<and> downloaded_bytes (fst r) = downloaded_bytes d
      \<and> (snd r \<longrightarrow> output_file (fst r) \<noteq> None)"
    using f3 by (simp add: r_def split: list.splits)
  have f5: "mime_type d3 = mime_type d \<and> total_bytes d3 = total_bytes d
      \<and> downloaded_bytes d3 = downloaded_bytes d \<and> status d3 = Some ''failed''
      \<and> error d3 = Some ''Download completed but file not found''"
    using f4 by (simp add: d3_def)
  have f6: "mime_type (fin d3) = mime_type d \<and> total_bytes (fin d3) = total_bytes d
      \<and> downloaded_bytes (fin d3) = downloaded_bytes d
      \<and> error (fin d3) = Some ''Download completed but file not found''"
    using f5 by (simp add: fin_def)
  have f7: "mime_type (fin (fst r)) = mime_type d \<and> total_bytes (fin (fst r)) = total_bytes d
      \<and> downloaded_bytes (fin (fst r)) = downloaded_bytes d
      \<and> (snd r \<longrightarrow> output_file (fin (fst r)) \<noteq> None)"
    using f4 by (simp add: fin_def)
  from assms aw consider "d' = d1" | "d' = d3" | "d' = fin d3" | "d' = fin (fst r)" "snd r"
    | "d' = d\<lparr>status := Some ''failed'',
           error := Some (''Download process exited with code '' @ str_int rc)\<rparr>"
    by (auto split: if_splits)
  then show ?thesis
  proof cases
    case 1 with f1 show ?thesis by simp
  next
    case 2 with f5 show ?thesis by simp
  next
    case 3 with f6 show ?thesis by simp
  next
    case 4 with f7 show ?thesis by simp
  next
    case 5 then show ?thesis by simp
  qed
qed

lemma run_subprocess_fields:
  assumes "d' \<in> set (run_subprocess env d)" "status d \<noteq> Some ''completed''"
  shows "mime_type d' = mime_type d
       \<and> (total_bytes d = None \<or> downloaded_bytes d \<noteq> None
            \<longrightarrow> total_bytes d' = None \<or> downloaded_bytes d' \<noteq> None)
       \<and> (status d' = Some ''completed'' \<longrightarrow>
            output_file d' \<noteq> None \<or> error d' = Some ''Download completed but file not found'')"
proof (cases "popen env")
  case (Inl e)
  with assms show ?thesis by (simp add: run_subprocess_def fail_with_def)
next
  case (Inr pid)
  define d1 where "d1 = d\<lparr>process := Some pid\<rparr>"
  define ds where "ds = d1 # read_loop (events env) d1"
  have rs: "run_subprocess env d = ds @ after_wait (files env) (return_code env) (last ds)"
    using Inr by (simp add: run_subprocess_def d1_def ds_def Let_def)
  have g: "\<And>x. x \<in> set ds \<Longrightarrow> mime_type x = mime_type d
       \<and> status x \<noteq> Some ''completed''
       \<and> (total_bytes d = None \<or> downloaded_bytes d \<noteq> None
            \<longrightarrow> total_bytes x = None \<or> downloaded_bytes x \<noteq> None)"
  proof -
    fix x assume "x \<in> set ds"
    then consider "x = d1" | "x \<in> set (read_loop (events env) d1)" by (auto simp add: ds_def)
    then show "mime_type x = mime_type d
       \<and> status x \<noteq> Some ''completed''
       \<and> (total_bytes d = None \<or> downloaded_bytes d \<noteq> None
            \<longrightarrow> total_bytes x = None \<or> downloaded_bytes x \<noteq> None)"
    proof cases
      case 1 with assms(2) show ?thesis by (simp add: d1_def)
    next
      case 2
      from read_loop_fields [OF 2] assms(2) show ?thesis by (simp add: d1_def)
    qed
  qed
  have l: "last ds \<in> set ds" by (simp add: ds_def)
  from assms(1) rs consider "d' \<in> set ds"
    | "d' \<in> set (after_wait (files env) (return_code env) (last ds))" by auto
  then show ?thesis
  proof cases
    case 1 with g [of d'] show ?thesis by simp
  next
    case 2
    from after_wait_fields [OF 2] g [OF l] show ?thesis by auto
  qed
qed

text \<open>
  Every state of a run: a task is \<open>completed\<close> only with a MIME type on record (set at line
  703, 739 or 768), and the bytes downloaded are known whenever the total is, when this
  holds of the record the run starts from.
\<close>

lemma download_thumbnail_fields:
  assumes "download_thumbnail env p d = Inr d'"
  shows "mime_type d' = Some ''image/jpeg'' \<and> output_file d' \<noteq> None
       \<and> total_bytes d' = total_bytes d \<and> downloaded_bytes d' = downloaded_bytes d"
proof (cases "thumbnails (info env)")
  case None
  with assms show ?thesis by (simp add: download_thumbnail_def)
next
  case (Some ts)
  show ?thesis
  proof (cases ts)
    case Nil
    with Some assms show ?thesis by (simp add: download_thumbnail_def)
  next
    case (Cons t ts')
    show ?thesis
    proof (cases "http_get env")
      case (Inl e)
      with Some Cons assms show ?thesis by (simp add: download_thumbnail_def)
    next
      case (Inr c)
      show ?thesis
      proof (cases "c = 200")
        case False
        with Inr Some Cons assms show ?thesis by (simp add: download_thumbnail_def)
      next
        case True
        show ?thesis
        proof (cases "title (info env)")
          case None
          with True Inr Some Cons assms show ?thesis by (simp add: download_thumbnail_def)
        next
          case (Some tt)
          show ?thesis
          proof (cases "write_error env")
            case None
            with Some True Inr \<open>thumbnails (info env) = Some ts\<close> Cons assms
            have "d' = d\<lparr>output_file := Some (path_join p
                  (filter (\<lambda>c. is_alnum c \<or> c \<in> set ''._- '') (tt @ ''_thumbnail.jpg''))),
                filename := Some (filter (\<lambda>c. is_alnum c \<or> c \<in> set ''._- '') (tt @ ''_thumbnail.jpg'')),
                mime_type := Some ''image/jpeg'',
                status := Some ''completed'', progress := Some 100\<rparr>"
              by (simp add: download_thumbnail_def Let_def)
            then show ?thesis by simp
          next
            case (Some e)
            with \<open>title (info env) = Some tt\<close> True Inr \<open>thumbnails (info env) = Some ts\<close> Cons assms
            show ?thesis by (simp add: download_thumbnail_def Let_def)
          qed
        qed
      qed
    qed
  qed
qed

lemma download_thread_fields:
  assumes "d \<in> set (download_thread env td D i u ft q)" "downloads D i = Some d0"
  shows "(status d = Some ''completed'' \<longrightarrow> mime_type d \<noteq> None
            \<and> (output_file d \<noteq> None \<or> error d = Some ''Download completed but file not found''))
       \<and> (total_bytes d0 = None \<or> downloaded_bytes d0 \<noteq> None
            \<longrightarrow> total_bytes d = None \<or> downloaded_bytes d \<noteq> None)"
proof -
  define s where "s = d0\<lparr>status := Some ''downloading''\<rparr>"
  define v where "v = s\<lparr>expected_extension := Some ''mp4'', mime_type := Some ''video/mp4''\<rparr>"
  define a where "a = s\<lparr>expected_extension := Some ''mp3'', mime_type := Some ''audio/mpeg''\<rparr>"
  have sv: "status v \<noteq> Some ''completed''" "mime_type v = Some ''video/mp4''"
    "total_bytes v = total_bytes d0" "downloaded_bytes v = downloaded_bytes d0"
    by (simp_all add: v_def s_def)
  have sa: "status a \<noteq> Some ''completed''" "mime_type a = Some ''audio/mpeg''"
    "total_bytes a = total_bytes d0" "downloaded_bytes a = downloaded_bytes d0"
    by (simp_all add: a_def s_def)
  from assms consider "d = s" | e where "d = fail_with e s"
    | m where "d = s\<lparr>status := Some ''failed'', error := Some m\<rparr>"
    | "d \<in> set (run_subprocess env v)" | "d \<in> set (run_subprocess env a)"
    | d1 where "download_thumbnail env (path_join td i) s = Inr d1" "d = d1"
    by (auto simp add: download_thread_def Let_def s_def v_def a_def
        split: option.splits if_splits sum.splits)
  then show ?thesis
  proof cases
    case 1 then show ?thesis by (simp add: s_def)
  next
    case 2 then show ?thesis by (simp add: s_def fail_with_def)
  next
    case 3 then show ?thesis by (simp add: s_def)
  next
    case 4
    from run_subprocess_fields [OF 4 sv(1)] sv show ?thesis by simp
  next
    case 5
    from run_subprocess_fields [OF 5 sa(1)] sa show ?thesis by simp
  next
    case 6
    from download_thumbnail_fields [OF 6(1)] 6(2) show ?thesis by (simp add: s_def)
  qed
qed

section \<open>Size-unit conversion\<close>

text \<open>
  Claim C9. When \<open>float\<close> reads the value text as \<open>v\<close>, \<open>parse_size\<close> returns \<open>v * 1024\<close> for
  the unit KiB, \<open>v * 1024\<^sup>2\<close> for MiB and \<open>v * 1024\<^sup>3\<close> for GiB, whatever the case of the
  unit's letters: only the lower-cased unit is compared.
\<close>

theorem parse_size_units:
  assumes "py_float value_str = Inr v"
  shows "(lower unit = ''kib'' \<longrightarrow> parse_size value_str unit = Inr (v * 1024))
       \<and> (lower unit = ''mib'' \<longrightarrow> parse_size value_str unit = Inr (v * 1024 ^ 2))
       \<and> (lower unit = ''gib'' \<longrightarrow> parse_size value_str unit = Inr (v * 1024 ^ 3))
       \<and> (lower unit = lower unit' \<longrightarrow> parse_size value_str unit = parse_size value_str unit')"
  using assms by (simp add: parse_size_def)

theorem parse_size_units_witness:
  "py_float ''1.5'' = Inr (3 / 2)
   \<and> lower ''KiB'' = ''kib'' \<and> parse_size ''1.5'' ''KiB'' = Inr (1536)
   \<and> lower ''mIb'' = ''mib'' \<and> parse_size ''1.5'' ''mIb'' = Inr (1572864)
   \<and> lower ''GIB'' = ''gib'' \<and> parse_size ''1.5'' ''GIB'' = Inr (1610612736)
   \<and> lower ''KIB'' = lower ''kib'' \<and> parse_size ''1.5'' ''KIB'' = parse_size ''1.5'' ''kib''"
proof -
  have f: "py_float ''1.5'' = Inr (3 / 2)"
    by (simp add: py_float_def is_digit_def digits_val_def digit_val_def)
  have l: "lower ''KiB'' = ''kib''" "lower ''mIb'' = ''mib''" "lower ''GIB'' = ''gib''"
    "lower ''KIB'' = lower ''kib''"
    by (simp_all add: lower_def lower_char_def)
  from parse_size_units [OF f, of "''KiB''"] parse_size_units [OF f, of "''mIb''"]
    parse_size_units [OF f, of "''GIB''"] parse_size_units [OF f, of "''KIB''" "''kib''"] f l
  show ?thesis by simp
qed

section \<open>Cancelling an unknown task\<close>

text \<open>
  Claim C10. For a task id that is not in the registry, \<open>cancel_download\<close> returns
  \<open>False\<close> and changes nothing: the registry, the state file and the processes signalled
  are the ones before the call.
\<close>

theorem cancel_download_unknown:
  assumes "downloads D download_id = None"
  shows "cancel_download D download_id = (False, D)"
  using assms by (simp add: cancel_download_def)

theorem cancel_download_unknown_witness:
  "downloads (init_downloader True True Missing) ''no-such-task'' = None
   \<and> cancel_download (init_downloader True True Missing) ''no-such-task''
       = (False, init_downloader True True Missing)"
proof -
  have h: "downloads (init_downloader True True Missing) ''no-such-task'' = None"
    by (simp add: init_downloader_def load_downloads_def)
  from cancel_download_unknown [OF h] h show ?thesis by simp
qed

section \<open>Persisting and reloading the registry\<close>

text \<open>
  Claim C4. When the state file can be written, saving the registry and constructing a
  downloader from the file gives, for every task id, the record that was saved with every
  field as it was except \<open>process\<close>, which is absent; in particular the status is the one
  saved. The new downloader has no runner thread, so no reloaded task is downloaded again.
\<close>

theorem save_load_roundtrip:
  assumes "writable D"
  shows "downloads (init_downloader ff w (state_file (save_downloads D))) i
           = map_option (\<lambda>d. d\<lparr>process := None\<rparr>) (downloads D i)
       \<and> runners (init_downloader ff w (state_file (save_downloads D))) = []
       \<and> terminated (init_downloader ff w (state_file (save_downloads D))) = []"
  using assms by (simp add: init_downloader_def load_downloads_def save_downloads_def)


theorem save_load_roundtrip_witness:
  "writable running_downloader
   \<and> downloads (init_downloader True True (state_file (save_downloads running_downloader))) ''t1''
       = Some (running_task\<lparr>process := None\<rparr>)
   \<and> runners (init_downloader True True (state_file (save_downloads running_downloader))) = []
   \<and> terminated (init_downloader True True (state_file (save_downloads running_downloader))) = []"
proof -
  have h: "writable running_downloader"
    by (simp add: running_downloader_def)
  have t: "downloads running_downloader ''t1'' = Some running_task"
    by (simp add: running_downloader_def)
  from save_load_roundtrip [OF h, of True True "''t1''"] h t show ?thesis by simp
qed

section \<open>Fetching the artifact\<close>

text \<open>
  Claim C3, as stated, asks that the answer for a known task that is not completed can be
  told apart from the answer for an unknown task id. It cannot: \<open>get_download_file\<close> gives
  the same triple for the task \<open>t1\<close>, which is downloading, and for an id that is not in
  the registry.
\<close>

theorem get_download_file_same_for_unknown:
  "downloads running_downloader ''t1'' = Some running_task
   \<and> status running_task = Some ''downloading''
   \<and> downloads running_downloader ''t2'' = None
   \<and> get_download_file running_downloader ''t1'' = get_download_file running_downloader ''t2''"
  by (simp add: running_downloader_def running_task_def new_download_def get_download_file_def)

text \<open>The run \<open>finished_run\<close>: its last state is \<open>completed\<close> without an error, its
  first is \<open>downloading\<close>.\<close>

lemma finished_run_trace:
  "last (download_thread finished_run ''/tmp'' (fresh_downloader ''video'') ''t1''
      ''https://youtu.be/ABCDEFGHIJK'' ''video'' ''best'')
     \<in> set (download_thread finished_run ''/tmp'' (fresh_downloader ''video'') ''t1''
      ''https://youtu.be/ABCDEFGHIJK'' ''video'' ''best'')"
  "status (last (download_thread finished_run ''/tmp'' (fresh_downloader ''video'') ''t1''
      ''https://youtu.be/ABCDEFGHIJK'' ''video'' ''best'')) = Some ''completed''"
  "error (last (download_thread finished_run ''/tmp'' (fresh_downloader ''video'') ''t1''
      ''https://youtu.be/ABCDEFGHIJK'' ''video'' ''best'')) = None"
  "hd (download_thread finished_run ''/tmp'' (fresh_downloader ''video'') ''t1''
      ''https://youtu.be/ABCDEFGHIJK'' ''video'' ''best'')
     \<in> set (download_thread finished_run ''/tmp'' (fresh_downloader ''video'') ''t1''
      ''https://youtu.be/ABCDEFGHIJK'' ''video'' ''best'')"
  "status (hd (download_thread finished_run ''/tmp'' (fresh_downloader ''video'') ''t1''
      ''https://youtu.be/ABCDEFGHIJK'' ''video'' ''best'')) = Some ''downloading''"
  by code_simp+

text \<open>
  Claim C3, amended. For an unknown task id and for a known task that is not completed
  \<open>get_download_file\<close> returns \<open>(None, None, None)\<close>, the same value in both cases; for a
  completed task it returns the record's \<open>output_file\<close>, \<open>filename\<close> and \<open>mime_type\<close>. For
  every record that a runner has written, held in the registry as it was written or as it
  is read back from the state file, without its \<open>process\<close> key, the triple is other than
  \<open>(None, None, None)\<close> if and only if the task's status is \<open>completed\<close>; and the path in
  it is present unless the runner has recorded the error
  \<^verbatim>\<open>Download completed but file not found\<close>.
\<close>

theorem get_download_file_ready:
  "(downloads D i = None \<longrightarrow> get_download_file D i = (None, None, None))
   \<and> (\<forall>d. downloads D i = Some d \<and> status d \<noteq> Some ''completed''
          \<longrightarrow> get_download_file D i = (None, None, None))
   \<and> (\<forall>d. downloads D i = Some d \<and> status d = Some ''completed''
          \<longrightarrow> get_download_file D i = (output_file d, filename d, mime_type d))
   \<and> (\<forall>d p. downloads D i = Some (d\<lparr>process := p\<rparr>)
            \<and> d \<in> set (download_thread env td D0 j u ft q)
          \<longrightarrow> (get_download_file D i \<noteq> (None, None, None)) = (status d = Some ''completed''))
   \<and> (\<forall>d p. downloads D i = Some (d\<lparr>process := p\<rparr>)
            \<and> d \<in> set (download_thread env td D0 j u ft q)
            \<and> status d = Some ''completed''
            \<and> error d \<noteq> Some ''Download completed but file not found''
          \<longrightarrow> fst (get_download_file D i) \<noteq> None)"
proof -
  have a: "downloads D i = None \<longrightarrow> get_download_file D i = (None, None, None)"
    by (simp add: get_download_file_def)
  have b: "\<forall>d. downloads D i = Some d \<and> status d \<noteq> Some ''completed''
          \<longrightarrow> get_download_file D i = (None, None, None)"
    by (simp add: get_download_file_def)
  have c: "\<forall>d. downloads D i = Some d \<and> status d = Some ''completed''
          \<longrightarrow> get_download_file D i = (output_file d, filename d, mime_type d)"
    by (simp add: get_download_file_def)
  have r: "status d = Some ''completed'' \<longrightarrow> mime_type d \<noteq> None
            \<and> (output_file d \<noteq> None \<or> error d = Some ''Download completed but file not found'')"
    if "d \<in> set (download_thread env td D0 j u ft q)" for d
  proof (cases "downloads D0 j")
    case None
    with that show ?thesis by (simp add: download_thread_def)
  next
    case (Some d0)
    from download_thread_fields [OF that Some] show ?thesis by simp
  qed
  have e: "\<forall>d p. downloads D i = Some (d\<lparr>process := p\<rparr>)
            \<and> d \<in> set (download_thread env td D0 j u ft q)
          \<longrightarrow> (get_download_file D i \<noteq> (None, None, None)) = (status d = Some ''completed'')"
    using r by (auto simp add: get_download_file_def)
  have f: "\<forall>d p. downloads D i = Some (d\<lparr>process := p\<rparr>)
            \<and> d \<in> set (download_thread env td D0 j u ft q)
            \<and> status d = Some ''completed''
            \<and> error d \<noteq> Some ''Download completed but file not found''
          \<longrightarrow> fst (get_download_file D i) \<noteq> None"
    using r by (auto simp add: get_download_file_def)
  from a b c e f show ?thesis by blast
qed

theorem get_download_file_ready_witness:
  "get_download_file
     (running_downloader\<lparr>downloads := [''t1'' \<mapsto>
        (last (download_thread finished_run ''/tmp'' (fresh_downloader ''video'') ''t1''
           ''https://youtu.be/ABCDEFGHIJK'' ''video'' ''best''))\<lparr>process := None\<rparr>]\<rparr>) ''t1''
     \<noteq> (None, None, None)
   \<and> fst (get_download_file
     (running_downloader\<lparr>downloads := [''t1'' \<mapsto>
        (last (download_thread finished_run ''/tmp'' (fresh_downloader ''video'') ''t1''
           ''https://youtu.be/ABCDEFGHIJK'' ''video'' ''best''))\<lparr>process := None\<rparr>]\<rparr>) ''t1'')
     \<noteq> None
   \<and> get_download_file
     (running_downloader\<lparr>downloads := [''t1'' \<mapsto>
        (hd (download_thread finished_run ''/tmp'' (fresh_downloader ''video'') ''t1''
           ''https://youtu.be/ABCDEFGHIJK'' ''video'' ''best''))\<lparr>process := None\<rparr>]\<rparr>) ''t1''
     = (None, None, None)
   \<and> get_download_file running_downloader ''t1'' = (None, None, None)
   \<and> get_download_file running_downloader ''t2'' = (None, None, None)"
proof -
  let ?T = "download_thread finished_run ''/tmp'' (fresh_downloader ''video'') ''t1''
      ''https://youtu.be/ABCDEFGHIJK'' ''video'' ''best''"
  let ?D = "running_downloader\<lparr>downloads := [''t1'' \<mapsto> (last ?T)\<lparr>process := None\<rparr>]\<rparr>"
  let ?E = "running_downloader\<lparr>downloads := [''t1'' \<mapsto> (hd ?T)\<lparr>process := None\<rparr>]\<rparr>"
  have a: "downloads ?D ''t1'' = Some ((last ?T)\<lparr>process := None\<rparr>)" by simp
  have b: "downloads ?E ''t1'' = Some ((hd ?T)\<lparr>process := None\<rparr>)" by simp
  have c: "downloads running_downloader ''t1'' = Some running_task
    \<and> status running_task \<noteq> Some ''completed''"
    by (simp add: running_downloader_def running_task_def new_download_def)
  have e: "downloads running_downloader ''t2'' = None"
    by (simp add: running_downloader_def)
  note g = get_download_file_ready [of ?D "''t1''" finished_run "''/tmp''"
      "fresh_downloader ''video''" "''t1''" "''https://youtu.be/ABCDEFGHIJK''" "''video''" "''best''"]
  note h = get_download_file_ready [of ?E "''t1''" finished_run "''/tmp''"
      "fresh_downloader ''video''" "''t1''" "''https://youtu.be/ABCDEFGHIJK''" "''video''" "''best''"]
  have n: "error (last ?T) \<noteq> Some ''Download completed but file not found''"
    by (simp add: finished_run_trace(3))
  from g [THEN conjunct2, THEN conjunct2, THEN conjunct2, THEN conjunct1, rule_format,
      where d = "last ?T" and p = None, OF conjI [OF a finished_run_trace(1)]] finished_run_trace(2)
  have 11: "get_download_file ?D ''t1'' \<noteq> (None, None, None)" by simp
  from g [THEN conjunct2, THEN conjunct2, THEN conjunct2, THEN conjunct2, rule_format,
      where d = "last ?T" and p = None, OF conjI [OF a conjI [OF finished_run_trace(1) conjI [OF finished_run_trace(2) n]]]]
  have 12: "fst (get_download_file ?D ''t1'') \<noteq> None" .
  note 1 = conjI [OF 11 12]
  from h [THEN conjunct2, THEN conjunct2, THEN conjunct2, THEN conjunct1, rule_format,
      where d = "hd ?T" and p = None, OF conjI [OF b finished_run_trace(4)]] finished_run_trace(5)
  have 2: "get_download_file ?E ''t1'' = (None, None, None)" by simp
  from get_download_file_ready [of running_downloader "''t1''", THEN conjunct2, THEN conjunct1,
      rule_format, where d = running_task, OF c]
  have 31: "get_download_file running_downloader ''t1'' = (None, None, None)" .
  from get_download_file_ready [of running_downloader "''t2''", THEN conjunct1, rule_format, OF e]
  have 32: "get_download_file running_downloader ''t2'' = (None, None, None)" .
  note 3 = conjI [OF 31 32]
  from 1 2 3 show ?thesis by blast
qed

text \<open>
  The exception in the last part is met: in the run \<open>empty_run\<close> the subprocess ends with
  the return code \<open>0\<close> and has left no file; the runner marks the task \<open>failed\<close> at line
  1011 and then \<open>completed\<close> at line 1058, and \<open>get_download_file\<close> answers with no path and
  no filename.
\<close>

lemma completed_without_file:
  "map status (download_thread empty_run ''/tmp'' (fresh_downloader ''video'') ''t1''
      ''https://youtu.be/ABCDEFGHIJK'' ''video'' ''best'')
     = [Some ''downloading'', Some ''downloading'', Some ''downloading'', Some ''processing'',
        Some ''failed'', Some ''completed'']
   \<and> error (last (download_thread empty_run ''/tmp'' (fresh_downloader ''video'') ''t1''
      ''https://youtu.be/ABCDEFGHIJK'' ''video'' ''best''))
     = Some ''Download completed but file not found''
   \<and> get_download_file
       (running_downloader\<lparr>downloads := [''t1'' \<mapsto>
          last (download_thread empty_run ''/tmp'' (fresh_downloader ''video'') ''t1''
            ''https://youtu.be/ABCDEFGHIJK'' ''video'' ''best'')]\<rparr>) ''t1''
     = (None, None, Some ''video/mp4'')"
  by code_simp

section \<open>A progress line\<close>

text \<open>The example line, evaluated piece by piece.\<close>

lemma example_line_facts:
  "contains example_line ''[Merger]'' = False"
  "contains example_line ''[VideoConvertor]'' = False"
  "contains example_line ''[download]'' = True"
  "contains example_line ''%'' = True"
  "example_line \<noteq> []"
  "strip example_line = example_line"
  "direct_eta example_line None = Some ''01:43''"
  "direct_speed example_line s = ''499.80KiB/s''"
  "regex_eta example_line e = e"
  "re_search sizes_re example_line = None"
  "re_search bs_pct_re example_line = None"
  "re_search speed_re example_line = None"
  "re_search pct_re example_line = Some [''42.0'']"
  "py_float ''42.0'' = Inr 42"
  unfolding example_line_def direct_eta_def direct_speed_def regex_eta_def
  by code_simp+

lemma example_line_parsed:
  assumes "total_bytes d = None \<or> downloaded_bytes d \<noteq> None"
  shows "process_line now example_line d
           = d\<lparr>last_progress_line := Some example_line, progress := Some 42,
               eta := Some ''01:43'', speed := Some ''499.80KiB/s''\<rparr>"
  using assms
  by (cases "speed_bytes d"; cases "total_bytes d"; cases "downloaded_bytes d")
     (auto simp add: process_line_def parse_progress_def parse_sizes_def fallback_pct_def
       parse_speed_def commit_line_def example_line_facts Let_def)

lemma example_line_eta_speed:
  "contains example_line ''ETA'' = True"
  "strip (last (split example_line ''ETA'')) = ''01:43''"
  "contains example_line ''at'' = True"
  "contains example_line ''/s'' = True"
  "strip (hd (split (last (split example_line ''at'')) ''ETA'')) = ''499.80KiB/s''"
  unfolding example_line_def by code_simp+

lemma example_line_reparsed:
  "reparse_raw_line st example_line (pr, sp, et) = (42, ''499.80KiB/s'', ''01:43'')"
  by (simp add: reparse_raw_line_def example_line_facts example_line_eta_speed Let_def)

lemma example_line_reported:
  assumes "status d \<noteq> Some ''processing''" "last_progress_line d = Some example_line"
  shows "r_progress (report_progress t d) = 42
       \<and> r_speed (report_progress t d) = ''499.80KiB/s''
       \<and> r_eta (report_progress t d) = ''01:43''"
  using assms
  by (cases "status d")
     (simp_all add: report_progress_def example_line_facts example_line_reparsed Let_def)

text \<open>In the processing phase \<open>get_progress\<close> reports the time spent in it.\<close>

lemma example_line_processing:
  assumes "status d = Some ''processing''"
  shows "r_progress (report_progress t d) = 90 + min 9 ((t - processing_start t d) / 10 * 9)
       \<and> r_speed (report_progress t d) = ''Processing...''"
  using assms
  by (simp add: report_progress_def Let_def split: prod.splits)

text \<open>The run \<open>playlist_run\<close>: its second state is \<open>downloading\<close>, its third, after the line
  of the merger read at time \<open>1001\<close>, is \<open>processing\<close>.\<close>

lemma playlist_run_trace:
  "downloads (fresh_downloader ''video'') ''t1''
     = Some (new_download ''https://youtu.be/ABCDEFGHIJK'' ''video'' ''best'' 1000)"
  "download_thread playlist_run ''/tmp'' (fresh_downloader ''video'') ''t1''
      ''https://youtu.be/ABCDEFGHIJK'' ''video'' ''best'' ! 1
    \<in> set (download_thread playlist_run ''/tmp'' (fresh_downloader ''video'') ''t1''
      ''https://youtu.be/ABCDEFGHIJK'' ''video'' ''best'')"
  "download_thread playlist_run ''/tmp'' (fresh_downloader ''video'') ''t1''
      ''https://youtu.be/ABCDEFGHIJK'' ''video'' ''best'' ! 2
    \<in> set (download_thread playlist_run ''/tmp'' (fresh_downloader ''video'') ''t1''
      ''https://youtu.be/ABCDEFGHIJK'' ''video'' ''best'')"
  "status (download_thread playlist_run ''/tmp'' (fresh_downloader ''video'') ''t1''
      ''https://youtu.be/ABCDEFGHIJK'' ''video'' ''best'' ! 1) = Some ''downloading''"
  "status (download_thread playlist_run ''/tmp'' (fresh_downloader ''video'') ''t1''
      ''https://youtu.be/ABCDEFGHIJK'' ''video'' ''best'' ! 2) = Some ''processing''"
  "processing_start 1004 (download_thread playlist_run ''/tmp'' (fresh_downloader ''video'') ''t1''
      ''https://youtu.be/ABCDEFGHIJK'' ''video'' ''best'' ! 2) = 1001"
  by (simp add: fresh_downloader_def, code_simp+)

text \<open>
  Claim C5, as stated, fails for a prior state in the processing phase. In the run
  \<open>playlist_run\<close> the line \<^verbatim>\<open>[download]  42.0% of  50.62MiB at  499.80KiB/s ETA 01:43\<close>
  is read after a line of the merger; it is stored with progress \<open>42\<close>, and \<open>get_progress\<close>
  reports the progress \<open>92.7\<close>, the speed \<^verbatim>\<open>Processing...\<close> and the eta
  \<^verbatim>\<open>Merging streams...\<close>.
\<close>

theorem progress_line_in_processing:
  "status (download_thread playlist_run ''/tmp'' (fresh_downloader ''video'') ''t1''
      ''https://youtu.be/ABCDEFGHIJK'' ''video'' ''best'' ! 2) = Some ''processing''
   \<and> download_thread playlist_run ''/tmp'' (fresh_downloader ''video'') ''t1''
      ''https://youtu.be/ABCDEFGHIJK'' ''video'' ''best'' ! 3
     = process_line 1003 ''[download]  42.0% of  50.62MiB at  499.80KiB/s ETA 01:43''
         (download_thread playlist_run ''/tmp'' (fresh_downloader ''video'') ''t1''
            ''https://youtu.be/ABCDEFGHIJK'' ''video'' ''best'' ! 2)
   \<and> progress (download_thread playlist_run ''/tmp'' (fresh_downloader ''video'') ''t1''
      ''https://youtu.be/ABCDEFGHIJK'' ''video'' ''best'' ! 3) = Some 42
   \<and> r_progress (report_progress 1004
        (download_thread playlist_run ''/tmp'' (fresh_downloader ''video'') ''t1''
           ''https://youtu.be/ABCDEFGHIJK'' ''video'' ''best'' ! 3)) = 927 / 10
   \<and> r_speed (report_progress 1004
        (download_thread playlist_run ''/tmp'' (fresh_downloader ''video'') ''t1''
           ''https://youtu.be/ABCDEFGHIJK'' ''video'' ''best'' ! 3)) = ''Processing...''
   \<and> r_eta (report_progress 1004
        (download_thread playlist_run ''/tmp'' (fresh_downloader ''video'') ''t1''
           ''https://youtu.be/ABCDEFGHIJK'' ''video'' ''best'' ! 3)) = ''Merging streams...''"
  by code_simp

text \<open>
  Claim C5, amended. From every state that the runner of a task created by
  \<open>start_download\<close> has written, the line
  \<^verbatim>\<open>[download]  42.0% of  50.62MiB at  499.80KiB/s ETA 01:43\<close> leaves the record with
  progress \<open>42\<close>, speed \<^verbatim>\<open>499.80KiB/s\<close> and eta \<^verbatim>\<open>01:43\<close>, the line itself kept as
  the last progress line and nothing else changed. Unless the task is in its processing
  phase, \<open>get_progress\<close> reports these three values at any later time; in the processing
  phase it reports the speed \<^verbatim>\<open>Processing...\<close> and a progress of \<open>90\<close> plus nine tenths of
  the seconds spent in that phase, at most \<open>99\<close>.
\<close>

theorem progress_line_parsed:
  assumes "downloads D i = Some (new_download u0 ft0 q0 t0)"
      and "d \<in> set (download_thread env td D i u ft q)"
  shows "process_line now ''[download]  42.0% of  50.62MiB at  499.80KiB/s ETA 01:43'' d
           = d\<lparr>last_progress_line := Some ''[download]  42.0% of  50.62MiB at  499.80KiB/s ETA 01:43'',
               progress := Some 42, eta := Some ''01:43'', speed := Some ''499.80KiB/s''\<rparr>
       \<and> (status d \<noteq> Some ''processing'' \<longrightarrow>
            r_progress (report_progress t
              (process_line now ''[download]  42.0% of  50.62MiB at  499.80KiB/s ETA 01:43'' d)) = 42
          \<and> r_speed (report_progress t
              (process_line now ''[download]  42.0% of  50.62MiB at  499.80KiB/s ETA 01:43'' d)) = ''499.80KiB/s''
          \<and> r_eta (report_progress t
              (process_line now ''[download]  42.0% of  50.62MiB at  499.80KiB/s ETA 01:43'' d)) = ''01:43'')
       \<and> (status d = Some ''processing'' \<longrightarrow>
            r_progress (report_progress t
              (process_line now ''[download]  42.0% of  50.62MiB at  499.80KiB/s ETA 01:43'' d))
              = 90 + min 9 ((t - processing_start t d) / 10 * 9)
          \<and> r_speed (report_progress t
              (process_line now ''[download]  42.0% of  50.62MiB at  499.80KiB/s ETA 01:43'' d)) = ''Processing...'')"
proof -
  let ?d' = "d\<lparr>last_progress_line := Some example_line, progress := Some 42,
               eta := Some ''01:43'', speed := Some ''499.80KiB/s''\<rparr>"
  have "total_bytes (new_download u0 ft0 q0 t0) = None" by (simp add: new_download_def)
  with download_thread_fields [OF assms(2) assms(1)]
  have inv: "total_bytes d = None \<or> downloaded_bytes d \<noteq> None" by simp
  have p: "process_line now example_line d = ?d'"
    by (rule example_line_parsed [OF inv])
  have n: "status d \<noteq> Some ''processing'' \<longrightarrow>
          r_progress (report_progress t ?d') = 42
        \<and> r_speed (report_progress t ?d') = ''499.80KiB/s''
        \<and> r_eta (report_progress t ?d') = ''01:43''"
    using example_line_reported [of ?d' t] by simp
  have s: "status d = Some ''processing'' \<longrightarrow>
          r_progress (report_progress t ?d') = 90 + min 9 ((t - processing_start t d) / 10 * 9)
        \<and> r_speed (report_progress t ?d') = ''Processing...''"
  proof -
    have "processing_start t ?d' = processing_start t d"
      by (simp add: processing_start_def split: option.splits)
    with example_line_processing [of ?d' t] show ?thesis by simp
  qed
  from p n s show ?thesis by (simp add: example_line_def)
qed

theorem progress_line_parsed_witness:
  "r_progress (report_progress 1004
      (process_line 1003 ''[download]  42.0% of  50.62MiB at  499.80KiB/s ETA 01:43''
         (download_thread playlist_run ''/tmp'' (fresh_downloader ''video'') ''t1''
            ''https://youtu.be/ABCDEFGHIJK'' ''video'' ''best'' ! 1))) = 42
   \<and> r_speed (report_progress 1004
      (process_line 1003 ''[download]  42.0% of  50.62MiB at  499.80KiB/s ETA 01:43''
         (download_thread playlist_run ''/tmp'' (fresh_downloader ''video'') ''t1''
            ''https://youtu.be/ABCDEFGHIJK'' ''video'' ''best'' ! 1))) = ''499.80KiB/s''
   \<and> r_eta (report_progress 1004
      (process_line 1003 ''[download]  42.0% of  50.62MiB at  499.80KiB/s ETA 01:43''
         (download_thread playlist_run ''/tmp'' (fresh_downloader ''video'') ''t1''
            ''https://youtu.be/ABCDEFGHIJK'' ''video'' ''best'' ! 1))) = ''01:43''
   \<and> r_progress (report_progress 1004
      (process_line 1003 ''[download]  42.0% of  50.62MiB at  499.80KiB/s ETA 01:43''
         (download_thread playlist_run ''/tmp'' (fresh_downloader ''video'') ''t1''
            ''https://youtu.be/ABCDEFGHIJK'' ''video'' ''best'' ! 2))) = 927 / 10
   \<and> r_speed (report_progress 1004
      (process_line 1003 ''[download]  42.0% of  50.62MiB at  499.80KiB/s ETA 01:43''
         (download_thread playlist_run ''/tmp'' (fresh_downloader ''video'') ''t1''
            ''https://youtu.be/ABCDEFGHIJK'' ''video'' ''best'' ! 2))) = ''Processing...''"
proof -
  let ?T = "download_thread playlist_run ''/tmp'' (fresh_downloader ''video'') ''t1''
      ''https://youtu.be/ABCDEFGHIJK'' ''video'' ''best''"
  note a = progress_line_parsed [OF playlist_run_trace(1) playlist_run_trace(2), of 1003 1004,
      THEN conjunct2, THEN conjunct1, rule_format]
  note b = progress_line_parsed [OF playlist_run_trace(1) playlist_run_trace(3), of 1003 1004,
      THEN conjunct2, THEN conjunct2, rule_format, OF playlist_run_trace(5)]
  have n: "status (?T ! 1) \<noteq> Some ''processing''"
    unfolding playlist_run_trace(4) by simp
  note 1 = a [OF n]
  have v: "90 + min 9 ((1004 - (1001::rat)) / 10 * 9) = 927 / 10" by simp
  note 2 = b [unfolded playlist_run_trace(6) v]
  from 1 2 show ?thesis by blast
qed

section \<open>Lines without a percentage\<close>

text \<open>
  Claim C6, as stated, fails for a line of the merger: it carries no percent sign, no
  \<^verbatim>\<open>/s\<close> and no \<open>ETA\<close>, and it replaces the eta \<^verbatim>\<open>00:10\<close> by \<^verbatim>\<open>Processing...\<close>.
\<close>

theorem merger_line_changes_eta:
  "\<not> contains ''[Merger] Merging formats into clip.mp4'' ''%''
   \<and> \<not> contains ''[Merger] Merging formats into clip.mp4'' ''ETA''
   \<and> \<not> contains ''[Merger] Merging formats into clip.mp4'' ''/s''
   \<and> eta (running_task\<lparr>speed := Some ''1MiB/s'', eta := Some ''00:10''\<rparr>) = Some ''00:10''
   \<and> eta (process_line 1001 ''[Merger] Merging formats into clip.mp4''
        (running_task\<lparr>speed := Some ''1MiB/s'', eta := Some ''00:10''\<rparr>)) = Some ''Processing...''"
proof -
  have a: "contains ''[Merger] Merging formats into clip.mp4'' ''%'' = False"
    "contains ''[Merger] Merging formats into clip.mp4'' ''ETA'' = False"
    "contains ''[Merger] Merging formats into clip.mp4'' ''/s'' = False"
    "contains ''[Merger] Merging formats into clip.mp4'' ''[Merger]'' = True"
    "contains ''[Merger] Merging formats into clip.mp4'' ''[download]'' = False"
    "contains ''[Merger] Merging formats into clip.mp4'' ''Destination:'' = False"
    by code_simp+
  show ?thesis
    unfolding process_line_def a
    by (simp add: enter_processing_def Let_def running_task_def new_download_def)
qed


lemma no_percent_speed:
  assumes "\<not> contains line ''%''"
  shows "speed (process_line now line d) = speed d"
  using assms
  by (simp add: process_line_def enter_processing_def parse_destination_def Let_def
      split: list.splits)

lemma no_percent_eta:
  assumes "\<not> contains line ''%''" "\<not> contains line ''[Merger]''" "\<not> contains line ''[VideoConvertor]''"
  shows "eta (process_line now line d) = eta d"
  using assms
  by (simp add: process_line_def parse_destination_def Let_def split: list.splits)

lemma destination_line:
  "process_line now ''Destination: foo.mp4'' d
     = d\<lparr>output_file := Some ''foo.mp4'', filename := Some ''foo.mp4''\<rparr>"
proof -
  have a: "contains ''Destination: foo.mp4'' ''[Merger]'' = False"
    "contains ''Destination: foo.mp4'' ''[VideoConvertor]'' = False"
    "contains ''Destination: foo.mp4'' ''[download]'' = False"
    "contains ''Destination: foo.mp4'' ''Destination:'' = True"
    "split ''Destination: foo.mp4'' ''Destination:'' = [[], '' foo.mp4'']"
    "strip '' foo.mp4'' = ''foo.mp4''"
    "basename ''foo.mp4'' = ''foo.mp4''"
    by code_simp+
  show ?thesis
    unfolding process_line_def parse_destination_def a by (simp add: Let_def a)
qed

text \<open>
  Claim C6, amended. A line without a percent sign leaves the speed as it was; it leaves
  the eta as it was unless it carries the marker of the merger or of the converter, and
  then the eta becomes \<^verbatim>\<open>Processing...\<close>. The line \<^verbatim>\<open>Destination: foo.mp4\<close> changes
  nothing but the output file and the file name, which both become \<^verbatim>\<open>foo.mp4\<close>.
\<close>

theorem line_without_percent_is_sticky:
  assumes "\<not> contains line ''%''"
  shows "speed (process_line now line d) = speed d
       \<and> (\<not> contains line ''[Merger]'' \<and> \<not> contains line ''[VideoConvertor]''
            \<longrightarrow> eta (process_line now line d) = eta d)
       \<and> (contains line ''[Merger]'' \<or> contains line ''[VideoConvertor]''
            \<longrightarrow> eta (process_line now line d) = Some ''Processing...'')
       \<and> process_line now ''Destination: foo.mp4'' d
           = d\<lparr>output_file := Some ''foo.mp4'', filename := Some ''foo.mp4''\<rparr>"
proof -
  have "contains line ''[Merger]'' \<or> contains line ''[VideoConvertor]''
          \<longrightarrow> eta (process_line now line d) = Some ''Processing...''"
    using assms
    by (simp add: process_line_def enter_processing_def parse_destination_def Let_def
        split: list.splits)
  with no_percent_speed [OF assms] no_percent_eta [OF assms] destination_line
  show ?thesis by blast
qed

theorem line_without_percent_is_sticky_witness:
  "\<not> contains ''Destination: foo.mp4'' ''%''
   \<and> \<not> contains ''Destination: foo.mp4'' ''[Merger]''
   \<and> \<not> contains ''Destination: foo.mp4'' ''[VideoConvertor]''
   \<and> speed (process_line 1001 ''Destination: foo.mp4''
        (running_task\<lparr>speed := Some ''1MiB/s'', eta := Some ''00:10''\<rparr>)) = Some ''1MiB/s''
   \<and> eta (process_line 1001 ''Destination: foo.mp4''
        (running_task\<lparr>speed := Some ''1MiB/s'', eta := Some ''00:10''\<rparr>)) = Some ''00:10''
   \<and> output_file (process_line 1001 ''Destination: foo.mp4''
        (running_task\<lparr>speed := Some ''1MiB/s'', eta := Some ''00:10''\<rparr>)) = Some ''foo.mp4''
   \<and> filename (process_line 1001 ''Destination: foo.mp4''
        (running_task\<lparr>speed := Some ''1MiB/s'', eta := Some ''00:10''\<rparr>)) = Some ''foo.mp4''"
proof -
  have a: "\<not> contains ''Destination: foo.mp4'' ''%''"
    "\<not> contains ''Destination: foo.mp4'' ''[Merger]''"
    "\<not> contains ''Destination: foo.mp4'' ''[VideoConvertor]''"
    by code_simp+
  from line_without_percent_is_sticky [OF a(1), of 1001
      "running_task\<lparr>speed := Some ''1MiB/s'', eta := Some ''00:10''\<rparr>"] a
  show ?thesis by simp
qed

section \<open>Cancellation against the runner\<close>

text \<open>
  The branch that \<open>_download_thread\<close> takes after \<open>process.wait()\<close> tests the status for
  \<open>canceled\<close> only on its successful side: a record whose status is \<open>canceled\<close> is marked
  \<open>failed\<close>, whatever the return code.
\<close>

lemma after_wait_overwrites_cancel:
  assumes "status d = Some ''canceled''"
  shows "map status (after_wait fs rc d) = [Some ''failed'']"
  using assms by (simp add: after_wait_def)

text \<open>
  Claim C1 (a cancelled task stays \<open>canceled\<close>) does not hold of the code. In the run
  \<open>cancelled_run\<close> the task is downloading, is cancelled after one progress line, and is
  marked \<open>failed\<close> when the terminated subprocess has ended: the states written by the
  runner are \<open>downloading\<close>, \<open>downloading\<close>, \<open>downloading\<close>, \<open>canceled\<close> and \<open>failed\<close>.
\<close>

theorem cancelled_task_ends_failed:
  "map status (download_thread cancelled_run ''/tmp'' (fresh_downloader ''video'') ''t1''
      ''https://youtu.be/ABCDEFGHIJK'' ''video'' ''best'')
     = [Some ''downloading'', Some ''downloading'', Some ''downloading'', Some ''canceled'',
        Some ''failed'']"
  by code_simp

section \<open>Thumbnail tasks\<close>

text \<open>
  Claim C7, as stated, fails: the runner sets the status \<open>downloading\<close> before it looks at
  the kind of rendition, so a thumbnail task passes through that state.
\<close>

theorem thumbnail_passes_through_downloading:
  "map status (download_thread thumbnail_run ''/tmp'' (fresh_downloader ''thumbnail'') ''t1''
      ''https://youtu.be/ABCDEFGHIJK'' ''thumbnail'' ''best'')
     = [Some ''downloading'', Some ''failed'']"
  by code_simp

text \<open>
  Claim C7, amended. The runner of a thumbnail task sets the status \<open>downloading\<close> and
  then makes exactly one more change of state, to \<open>completed\<close> with progress 100 or to
  \<open>failed\<close>; it starts no subprocess and records no progress line. The final state is
  \<open>failed\<close> whenever the request for the image does not answer with status 200, the image
  cannot be written, or the task's directory cannot be made.
\<close>

theorem thumbnail_states:
  assumes "downloads D i = Some d0"
  shows "\<exists>fin. download_thread env td D i u ''thumbnail'' q
                 = [d0\<lparr>status := Some ''downloading''\<rparr>, fin]
      \<and> (status fin = Some ''completed'' \<or> status fin = Some ''failed'')
      \<and> (status fin = Some ''completed'' \<longrightarrow> progress fin = Some 100)
      \<and> process fin = process d0
      \<and> last_progress_line fin = last_progress_line d0
      \<and> (http_get env \<noteq> Inr 200 \<or> write_error env \<noteq> None \<or> makedirs_error env \<noteq> None
            \<longrightarrow> status fin = Some ''failed'')"
  using assms
  by (auto simp add: download_thread_def download_thumbnail_def fail_with_def Let_def
      split: option.splits list.splits sum.splits)

theorem thumbnail_states_witness:
  "downloads (fresh_downloader ''thumbnail'') ''t1''
     = Some (new_download ''https://youtu.be/ABCDEFGHIJK'' ''thumbnail'' ''best'' 1000)
   \<and> http_get (thumbnail_run\<lparr>http_get := Inr 404\<rparr>) \<noteq> Inr 200
   \<and> (\<exists>fin. download_thread (thumbnail_run\<lparr>http_get := Inr 404\<rparr>) ''/tmp''
               (fresh_downloader ''thumbnail'') ''t1'' ''https://youtu.be/ABCDEFGHIJK''
               ''thumbnail'' ''best''
             = [(new_download ''https://youtu.be/ABCDEFGHIJK'' ''thumbnail'' ''best'' 1000)
                  \<lparr>status := Some ''downloading''\<rparr>, fin]
           \<and> status fin = Some ''failed'')"
proof -
  have h: "downloads (fresh_downloader ''thumbnail'') ''t1''
     = Some (new_download ''https://youtu.be/ABCDEFGHIJK'' ''thumbnail'' ''best'' 1000)"
    by (simp add: fresh_downloader_def)
  have c: "http_get (thumbnail_run\<lparr>http_get := Inr 404\<rparr>) \<noteq> Inr 200"
    by simp
  from thumbnail_states [OF h, of "thumbnail_run\<lparr>http_get := Inr 404\<rparr>" "''/tmp''"
      "''https://youtu.be/ABCDEFGHIJK''" "''best''"] h c
  show ?thesis by blast
qed

section \<open>Starting a download: invalid input\<close>

text \<open>
  Claim C8. \<open>start_download\<close> fails exactly when the URL does not pass the validator or
  the kind of rendition is not one of \<open>video\<close>, \<open>audio\<close>, \<open>thumbnail\<close>, and every failure
  is a \<open>ValueError\<close>. The validator returns a boolean for every text and every behaviour
  of the URL library: \<open>False\<close> when its body raises, the value of the body otherwise.
\<close>

theorem start_download_invalid_input:
  "((\<exists>msg. start_download lib new_id now D u ft q = Inl (ValueError msg))
      \<longleftrightarrow> (\<not> is_valid_youtube_url lib u \<or> ft \<notin> set [''video'', ''audio'', ''thumbnail'']))
   \<and> ((\<exists>e. start_download lib new_id now D u ft q = Inl e)
      \<longleftrightarrow> (\<exists>msg. start_download lib new_id now D u ft q = Inl (ValueError msg)))
   \<and> (\<forall>e. valid_url_body lib u = Inl e \<longrightarrow> is_valid_youtube_url lib u = False)
   \<and> (\<forall>b. valid_url_body lib u = Inr b \<longrightarrow> is_valid_youtube_url lib u = b)"
  by (auto simp add: start_download_def is_valid_youtube_url_def Let_def)

theorem start_download_invalid_input_witness:
  "valid_url_body one_url_lib ''not a url'' = Inl (ValueError ''Invalid IPv6 URL'')
   \<and> is_valid_youtube_url one_url_lib ''not a url'' = False
   \<and> (\<exists>msg. start_download one_url_lib ''t2'' 1000 (fresh_downloader ''video'') ''not a url''
               ''video'' ''best'' = Inl (ValueError msg))
   \<and> valid_url_body one_url_lib ''https://youtu.be/ABCDEFGHIJK'' = Inr True
   \<and> is_valid_youtube_url one_url_lib ''https://youtu.be/ABCDEFGHIJK'' = True
   \<and> (\<exists>msg. start_download one_url_lib ''t2'' 1000 (fresh_downloader ''video'')
               ''https://youtu.be/ABCDEFGHIJK'' ''gif'' ''best'' = Inl (ValueError msg))
   \<and> \<not> (\<exists>e. start_download one_url_lib ''t2'' 1000 (fresh_downloader ''video'')
               ''https://youtu.be/ABCDEFGHIJK'' ''audio'' ''best'' = Inl e)"
proof -
  have a: "valid_url_body one_url_lib ''not a url'' = Inl (ValueError ''Invalid IPv6 URL'')"
    by (simp add: valid_url_body_def one_url_lib_def)
  have b: "valid_url_body one_url_lib ''https://youtu.be/ABCDEFGHIJK'' = Inr True"
    by (simp add: valid_url_body_def one_url_lib_def)
  have c: "''gif'' \<notin> set [''video'', ''audio'', ''thumbnail'']"
    "''audio'' \<in> set [''video'', ''audio'', ''thumbnail'']"
    by simp_all
  from start_download_invalid_input [of one_url_lib "''t2''" 1000 "fresh_downloader ''video''"
      "''not a url''" "''video''" "''best''"]
    start_download_invalid_input [of one_url_lib "''t2''" 1000 "fresh_downloader ''video''"
      "''https://youtu.be/ABCDEFGHIJK''" "''gif''" "''best''"]
    start_download_invalid_input [of one_url_lib "''t2''" 1000 "fresh_downloader ''video''"
      "''https://youtu.be/ABCDEFGHIJK''" "''audio''" "''best''"] a b c
  show ?thesis by auto
qed

section \<open>The progress that is reported\<close>

text \<open>
  Claim C2, as stated, fails twice. While the task is downloading, the value reported
  follows the last progress line, and the second stream of a download starts again from a
  low percentage: 50 is followed by 10. And for the task of \<open>finished_run\<close>, which is
  completed with a stored progress of 100, the value reported is 90, read again from the
  last progress line.
\<close>

theorem reported_progress_decreases:
  "status (process_line 1001 ''[download]  50.0% of  50.62MiB at  499.80KiB/s ETA 00:50'' running_task)
     = Some ''downloading''
   \<and> status (process_line 1002 ''[download]  10.0% of   5.12MiB at  499.80KiB/s ETA 00:09''
       (process_line 1001 ''[download]  50.0% of  50.62MiB at  499.80KiB/s ETA 00:50'' running_task))
     = Some ''downloading''
   \<and> r_progress (report_progress 1001
       (process_line 1001 ''[download]  50.0% of  50.62MiB at  499.80KiB/s ETA 00:50'' running_task))
     = 50
   \<and> r_progress (report_progress 1002
       (process_line 1002 ''[download]  10.0% of   5.12MiB at  499.80KiB/s ETA 00:09''
         (process_line 1001 ''[download]  50.0% of  50.62MiB at  499.80KiB/s ETA 00:50'' running_task)))
     = 10
   \<and> r_status (report_progress 1010
       (last (download_thread finished_run ''/tmp'' (fresh_downloader ''video'') ''t1''
          ''https://youtu.be/ABCDEFGHIJK'' ''video'' ''best'')))
     = ''completed''
   \<and> r_progress (report_progress 1010
       (last (download_thread finished_run ''/tmp'' (fresh_downloader ''video'') ''t1''
          ''https://youtu.be/ABCDEFGHIJK'' ''video'' ''best'')))
     = 90"
  by code_simp

lemma reported_downloading:
  assumes "status d = Some ''downloading''" "last_progress_line d = Some l"
    "contains l ''[download]''" "contains l ''%''"
    "re_search pct_re l = Some g" "py_float (g ! 0) = Inr p"
  shows "r_progress (report_progress now d) = max (1 / 10) (min 90 p)"
proof -
  have ne: "l \<noteq> []" using assms(4) by (cases l) auto
  show ?thesis
    using assms ne
    by (auto simp add: report_progress_def reparse_raw_line_def Let_def min_def max_def)
qed

lemma reported_processing:
  assumes "status d = Some ''processing''"
  shows "r_progress (report_progress now d) = 90 + min 9 ((now - processing_start now d) / 10 * 9)"
  using assms
  by (auto simp add: report_progress_def Let_def split: prod.splits)

lemma processing_elapsed_mono:
  assumes "processing_start now d \<le> now" "now \<le> now'"
  shows "0 \<le> now - processing_start now d
       \<and> now - processing_start now d \<le> now' - processing_start now' d"
  using assms by (auto simp add: processing_start_def split: option.splits)

text \<open>
  Claim C2, amended. While the status is \<open>downloading\<close> and the last progress line carries
  a percentage \<open>p\<close>, \<open>get_progress\<close> reports \<open>p\<close> capped at 90 and raised to at least 0.1,
  a value between 0.1 and 90. While the status is \<open>processing\<close> and the clock is not before
  the start of the processing phase, it reports a value between 90 and 99 that does not
  decrease as the clock advances.
\<close>

theorem reported_progress_ranges:
  "(status d = Some ''downloading'' \<and> last_progress_line d = Some l
      \<and> contains l ''[download]'' \<and> contains l ''%''
      \<and> re_search pct_re l = Some g \<and> py_float (g ! 0) = Inr p
      \<longrightarrow> r_progress (report_progress now d) = max (1 / 10) (min 90 p)
        \<and> 1 / 10 \<le> r_progress (report_progress now d)
        \<and> r_progress (report_progress now d) \<le> 90)
   \<and> (status d = Some ''processing'' \<and> processing_start now d \<le> now \<and> now \<le> now'
      \<longrightarrow> 90 \<le> r_progress (report_progress now d)
        \<and> r_progress (report_progress now d) \<le> r_progress (report_progress now' d)
        \<and> r_progress (report_progress now' d) \<le> 99)"
proof (intro conjI impI)
  assume a: "status d = Some ''downloading'' \<and> last_progress_line d = Some l
      \<and> contains l ''[download]'' \<and> contains l ''%''
      \<and> re_search pct_re l = Some g \<and> py_float (g ! 0) = Inr p"
  then have e: "r_progress (report_progress now d) = max (1 / 10) (min 90 p)"
    using reported_downloading [of d l g p now] by blast
  show "r_progress (report_progress now d) = max (1 / 10) (min 90 p)" by (rule e)
  show "1 / 10 \<le> r_progress (report_progress now d)" using e by simp
  show "r_progress (report_progress now d) \<le> 90" using e by simp
next
  assume a: "status d = Some ''processing'' \<and> processing_start now d \<le> now \<and> now \<le> now'"
  then have st: "status d = Some ''processing''" by simp
  from a processing_elapsed_mono [of now d now']
  have m: "0 \<le> now - processing_start now d"
    "now - processing_start now d \<le> now' - processing_start now' d" by simp_all
  show "90 \<le> r_progress (report_progress now d)"
    using m by (simp add: reported_processing [OF st])
  show "r_progress (report_progress now d) \<le> r_progress (report_progress now' d)"
    using m by (simp add: reported_processing [OF st] min_def)
  show "r_progress (report_progress now' d) \<le> 99"
    by (simp add: reported_processing [OF st])
qed

theorem reported_progress_ranges_witness:
  "status (running_task\<lparr>last_progress_line := Some example_line\<rparr>) = Some ''downloading''
   \<and> re_search pct_re example_line = Some [''42.0''] \<and> py_float ([''42.0''] ! 0) = Inr 42
   \<and> r_progress (report_progress 1002 (running_task\<lparr>last_progress_line := Some example_line\<rparr>))
       = max (1 / 10) (min 90 42)
   \<and> status (running_task\<lparr>status := Some ''processing'', processing_start_time := Some 1005\<rparr>)
       = Some ''processing''
   \<and> processing_start 1010
       (running_task\<lparr>status := Some ''processing'', processing_start_time := Some 1005\<rparr>) \<le> 1010
   \<and> 90 \<le> r_progress (report_progress 1010
       (running_task\<lparr>status := Some ''processing'', processing_start_time := Some 1005\<rparr>))
   \<and> r_progress (report_progress 1010
       (running_task\<lparr>status := Some ''processing'', processing_start_time := Some 1005\<rparr>))
     \<le> r_progress (report_progress 1020
       (running_task\<lparr>status := Some ''processing'', processing_start_time := Some 1005\<rparr>))
   \<and> r_progress (report_progress 1020
       (running_task\<lparr>status := Some ''processing'', processing_start_time := Some 1005\<rparr>)) \<le> 99"
proof -
  have a: "status (running_task\<lparr>last_progress_line := Some example_line\<rparr>) = Some ''downloading''"
    "last_progress_line (running_task\<lparr>last_progress_line := Some example_line\<rparr>)
       = Some example_line"
    by (simp_all add: running_task_def new_download_def)
  have f: "py_float ([''42.0''] ! 0) = Inr 42"
    using example_line_facts by simp
  have b: "status (running_task\<lparr>status := Some ''processing'', processing_start_time := Some 1005\<rparr>)
       = Some ''processing''"
    "processing_start 1010
       (running_task\<lparr>status := Some ''processing'', processing_start_time := Some 1005\<rparr>) \<le> 1010"
    by (simp_all add: processing_start_def)
  from reported_progress_ranges [of "running_task\<lparr>last_progress_line := Some example_line\<rparr>"
      example_line "[''42.0'']" 42 1002 1002]
    reported_progress_ranges [of
      "running_task\<lparr>status := Some ''processing'', processing_start_time := Some 1005\<rparr>"
      example_line "[''42.0'']" 42 1010 1020]
    a b f example_line_facts
  show ?thesis by auto
qed

end
